theory Spec2Isabelle
  imports Complex_Main "HOL-Library.AList" "HOL-Library.Char_ord" "HOL-Library.List_Lexorder"
    "HOL-Library.Multiset"
begin

section \<open>Python values\<close>

text \<open>
  The test suite of \<^verbatim>\<open>IS1201Test.py\<close> works on the values that \<^verbatim>\<open>json.load\<close> and the
  control protocol deliver: \<^verbatim>\<open>None\<close>, booleans, integers, floats, strings, lists and
  dictionaries. A finite float is modelled by its rational value (only its equality and
  its truth value are ever used). A dictionary is an association list in insertion
  order, read with \<^const>\<open>map_of\<close>; its keys are hashed values: Python identifies the
  keys \<^verbatim>\<open>1\<close>, \<^verbatim>\<open>1.0\<close> and \<^verbatim>\<open>True\<close>, so a numeric key is kept
  by its value.
\<close>

datatype pykey = KNone | KNum rat | KStr string

datatype json = JNull | JBool bool | JInt int | JFloat rat | JStr string
  | JList "json list" | JDict "(pykey \<times> json) list"

type_synonym pydict = "(pykey \<times> json) list"

text \<open>A piece of a message built by string concatenation: a literal or a string-valued
  variable, \<^verbatim>\<open>str(v)\<close> of a value, \<^verbatim>\<open>str(s)\<close> of a set of dictionary keys.\<close>

datatype part = Txt string | StrOf json | StrOfKeys "pykey set"

type_synonym msg = "part list"

text \<open>The exceptions that leave a function of the suite. \<^verbatim>\<open>NMOSTestException\<close> carries
  the text given to \<^verbatim>\<open>test.FAIL\<close>.\<close>

datatype pyerror = KeyError | IndexError | TypeError | AttributeError | ValueError
  | NMOSTestException msg

text \<open>Truth value of a value in \<^verbatim>\<open>if v\<close> and \<^verbatim>\<open>if not v\<close>.\<close>

fun truthy :: "json \<Rightarrow> bool" where
  "truthy JNull = False"
| "truthy (JBool b) = b"
| "truthy (JInt i) = (i \<noteq> 0)"
| "truthy (JFloat r) = (r \<noteq> 0)"
| "truthy (JStr s) = (s \<noteq> [])"
| "truthy (JList xs) = (xs \<noteq> [])"
| "truthy (JDict kvs) = (kvs \<noteq> [])"

text \<open>\<^verbatim>\<open>isinstance(v, list)\<close> and \<^verbatim>\<open>isinstance(v, dict)\<close>.\<close>

fun is_list :: "json \<Rightarrow> bool" where
  "is_list (JList xs) = True"
| "is_list _ = False"

fun is_dict :: "json \<Rightarrow> bool" where
  "is_dict (JDict kvs) = True"
| "is_dict _ = False"

text \<open>The numeric value of a boolean, an integer or a float.\<close>

fun num_val :: "json \<Rightarrow> rat option" where
  "num_val (JBool b) = Some (if b then 1 else 0)"
| "num_val (JInt i) = Some (of_int i)"
| "num_val (JFloat r) = Some r"
| "num_val _ = None"

lemma map_of_size:
  "map_of a k = Some v \<Longrightarrow> size v < Suc (size_list (size_prod (\<lambda>x. 0) size) a)"
  by (induction a) (auto split: if_splits)

text \<open>Python's \<^verbatim>\<open>==\<close>: numbers by value across \<^verbatim>\<open>bool\<close>, \<^verbatim>\<open>int\<close> and \<^verbatim>\<open>float\<close>; lists
  elementwise and in order; dictionaries by key set and the values under each key.\<close>

function (sequential) py_eq :: "json \<Rightarrow> json \<Rightarrow> bool" where
  "py_eq (JList xs) (JList ys) = list_all2 py_eq xs ys"
| "py_eq (JDict a) (JDict b) =
     (list_all (\<lambda>k. case map_of a k of None \<Rightarrow> False
          | Some v \<Rightarrow> (case map_of b k of None \<Rightarrow> False | Some w \<Rightarrow> py_eq v w)) (map fst a)
      \<and> list_all (\<lambda>k. map_of a k \<noteq> None) (map fst b))"
| "py_eq (JStr s) (JStr t) = (s = t)"
| "py_eq JNull JNull = True"
| "py_eq a b = (num_val a \<noteq> None \<and> num_val a = num_val b)"
  by pat_completeness auto
termination
  apply (relation "measure (\<lambda>(a, b). size a)")
    apply simp
  subgoal by (auto dest!: set_zip_leftD simp: less_Suc_eq_le size_list_estimation')
  subgoal by (auto dest: map_of_size)
  done

text \<open>\<^verbatim>\<open>x in xs\<close> and \<^verbatim>\<open>x not in xs\<close> for a list \<^verbatim>\<open>xs\<close>.\<close>

definition py_in :: "json \<Rightarrow> json list \<Rightarrow> bool" where
  "py_in x xs = list_ex (py_eq x) xs"

text \<open>The key under which a value is stored in a dictionary; lists and dictionaries are
  unhashable.\<close>

fun hash_key :: "json \<Rightarrow> pyerror + pykey" where
  "hash_key JNull = Inr KNone"
| "hash_key (JBool b) = Inr (KNum (if b then 1 else 0))"
| "hash_key (JInt i) = Inr (KNum (of_int i))"
| "hash_key (JFloat r) = Inr (KNum r)"
| "hash_key (JStr s) = Inr (KStr s)"
| "hash_key (JList xs) = Inl TypeError"
| "hash_key (JDict kvs) = Inl TypeError"

text \<open>\<^verbatim>\<open>d.get(k)\<close> on a dictionary and on any value, \<^verbatim>\<open>d[k]\<close> on a dictionary, and
  \<^verbatim>\<open>v[k]\<close> with a string \<^verbatim>\<open>k\<close> on any value.\<close>

definition dict_get :: "pydict \<Rightarrow> string \<Rightarrow> json" where
  "dict_get d k = (case map_of d (KStr k) of None \<Rightarrow> JNull | Some v \<Rightarrow> v)"

fun py_get :: "json \<Rightarrow> string \<Rightarrow> pyerror + json" where
  "py_get (JDict d) k = Inr (dict_get d k)"
| "py_get _ k = Inl AttributeError"

definition dict_item :: "pydict \<Rightarrow> pykey \<Rightarrow> pyerror + json" where
  "dict_item d k = (case map_of d k of None \<Rightarrow> Inl KeyError | Some v \<Rightarrow> Inr v)"

fun py_item :: "json \<Rightarrow> string \<Rightarrow> pyerror + json" where
  "py_item (JDict d) k = dict_item d (KStr k)"
| "py_item _ k = Inl TypeError"

text \<open>\<^verbatim>\<open>s + v\<close> for a string \<^verbatim>\<open>s\<close>: a \<^verbatim>\<open>TypeError\<close> unless \<^verbatim>\<open>v\<close> is a string.\<close>

fun str_part :: "json \<Rightarrow> pyerror + part" where
  "str_part (JStr s) = Inr (Txt s)"
| "str_part _ = Inl TypeError"

section \<open>Test metadata and schema validation\<close>

text \<open>The dictionaries \<^verbatim>\<open>{"checked": .., "error": .., "error_msg": ..}\<close> of
  \<^verbatim>\<open>set_up_tests\<close>.\<close>

record metadata =
  checked :: bool
  error :: bool
  error_msg :: msg

text \<open>\<^verbatim>\<open>validate_schema\<close> is inherited from \<^verbatim>\<open>GenericTest\<close> and runs the jsonschema
  library: it is a parameter \<open>vs\<close> of the model, which tells for a payload and a schema
  whether the validation passes, raises \<^verbatim>\<open>ValidationError\<close> or raises
  \<^verbatim>\<open>SchemaError\<close>, with the library's message.\<close>

datatype schema_outcome = Valid | ValidationError string | SchemaError string

type_synonym validator = "json \<Rightarrow> json \<Rightarrow> schema_outcome"

text \<open>\<^verbatim>\<open>_validate_schema\<close> (lines 193-205).\<close>

definition u_validate_schema :: "validator \<Rightarrow> json \<Rightarrow> json \<Rightarrow> msg \<Rightarrow> pyerror + unit" where
  "u_validate_schema vs payload schema ctx =
     (if \<not> truthy schema then Inl (NMOSTestException (ctx @ [Txt ''Missing schema. '']))
      else case vs payload schema of
          Valid \<Rightarrow> Inr ()
        | ValidationError m \<Rightarrow>
            Inl (NMOSTestException (ctx @ [Txt ''Schema validation error: '', Txt m]))
        | SchemaError m \<Rightarrow> Inl (NMOSTestException (ctx @ [Txt ''Schema error: '', Txt m])))"

text \<open>A \<^verbatim>\<open>for\<close> loop whose body only validates: it stops at the first exception.\<close>

fun validate_each :: "validator \<Rightarrow> json list \<Rightarrow> json \<Rightarrow> msg \<Rightarrow> pyerror + unit" where
  "validate_each vs [] schema ctx = Inr ()"
| "validate_each vs (v # rest) schema ctx =
     (case u_validate_schema vs v schema ctx of
        Inl e \<Rightarrow> Inl e
      | Inr _ \<Rightarrow> validate_each vs rest schema ctx)"

section \<open>Constraint validation\<close>

text \<open>\<^verbatim>\<open>resolve_datatype\<close> (lines 1428-1431). The catalog \<^verbatim>\<open>datatype_descriptors\<close> is the
  dictionary that \<^verbatim>\<open>get_class_manager_descriptors\<close> builds. When the descriptor has a
  truthy \<^verbatim>\<open>parentType\<close>, the method calls
  \<^verbatim>\<open>self.resolve_datatype(self, parentType, datatype_descriptors)\<close>: the bound method
  has the two parameters \<^verbatim>\<open>datatype\<close> and \<^verbatim>\<open>datatype_descriptors\<close> after \<^verbatim>\<open>self\<close>,
  the call site writes three arguments, and Python raises \<^verbatim>\<open>TypeError\<close> when it binds
  them, before the body runs. \<open>bind_arguments\<close> is that binding for the arguments written
  at a call site; the termination proof of \<open>resolve_datatype\<close> rests on the fact that the
  binding of the only recursive call never succeeds.\<close>

datatype argument = ArgSelf | ArgValue json | ArgDict pydict

fun bind_arguments :: "argument list \<Rightarrow> pyerror + (json \<times> pydict)" where
  "bind_arguments [ArgValue datatype, ArgDict datatype_descriptors] =
     Inr (datatype, datatype_descriptors)"
| "bind_arguments args = Inl TypeError"

function resolve_datatype :: "json \<Rightarrow> pydict \<Rightarrow> pyerror + json" where
  "resolve_datatype datatype datatype_descriptors =
     (case hash_key datatype of
        Inl e \<Rightarrow> Inl e
      | Inr k \<Rightarrow>
         (case dict_item datatype_descriptors k of
            Inl e \<Rightarrow> Inl e
          | Inr d \<Rightarrow>
             (case py_get d ''parentType'' of
                Inl e \<Rightarrow> Inl e
              | Inr parent \<Rightarrow>
                  if truthy parent
                  then (case bind_arguments
                              [ArgSelf, ArgValue parent, ArgDict datatype_descriptors] of
                          Inl e \<Rightarrow> Inl e
                        | Inr (datatype', datatype_descriptors') \<Rightarrow>
                            resolve_datatype datatype' datatype_descriptors')
                  else Inr datatype)))"
  by pat_completeness auto
termination
  by (relation "{}") simp_all

declare resolve_datatype.simps [simp del]

text \<open>The contract \<^verbatim>\<open>ResolveBaseType\<close> of the specification (section 4.4), in its words:
  "follows parentType links until a datatype has none, producing the root primitive". It
  is what the claim about \<open>resolve_datatype\<close> is compared with, not a translation of the
  code; \<open>fuel\<close> bounds the number of links followed, and \<open>None\<close> means that no root was
  reached (a missing descriptor, or more links than fuel).\<close>

fun ResolveBaseType :: "nat \<Rightarrow> string \<Rightarrow> pydict \<Rightarrow> string option" where
  "ResolveBaseType 0 typeName catalog = None"
| "ResolveBaseType (Suc fuel) typeName catalog =
     (case map_of catalog (KStr typeName) of
        Some (JDict d) \<Rightarrow>
          (case dict_get d ''parentType'' of
             JStr parent \<Rightarrow> ResolveBaseType fuel parent catalog
           | _ \<Rightarrow> Some typeName)
      | _ \<Rightarrow> None)"

definition numeric_primitives :: "json list" where
  "numeric_primitives = [JStr ''NcInt16'', JStr ''NcInt32'', JStr ''NcInt64'', JStr ''NcUint16'',
     JStr ''NcUint32'', JStr ''NcUint64'', JStr ''NcFloat32'', JStr ''NcFloat64'']"

definition integer_primitives :: "json list" where
  "integer_primitives = [JStr ''NcInt16'', JStr ''NcInt32'', JStr ''NcInt64'', JStr ''NcUint16'',
     JStr ''NcUint32'', JStr ''NcUint64'']"

text \<open>\<^verbatim>\<open>b is not v\<close> for the boolean \<^verbatim>\<open>b\<close> that \<^verbatim>\<open>isinstance\<close> returns: identity with
  the singletons \<^verbatim>\<open>True\<close> and \<^verbatim>\<open>False\<close>.\<close>

fun is_not_bool :: "bool \<Rightarrow> json \<Rightarrow> bool" where
  "is_not_bool b (JBool c) = (b \<noteq> c)"
| "is_not_bool b _ = True"

text \<open>The three parts of \<^verbatim>\<open>check_constraint\<close> (lines 1433-1464): the default value
  (lines 1435-1448; \<open>None\<close> is the early \<^verbatim>\<open>return\<close> of line 1440), the numeric
  constraints (lines 1453-1458) and the string constraints (lines 1460-1464).\<close>

definition check_default_value ::
  "validator \<Rightarrow> pydict \<Rightarrow> json \<Rightarrow> json \<Rightarrow> metadata \<Rightarrow> msg \<Rightarrow> pyerror + (metadata \<times> bool)" where
  "check_default_value vs constraint datatype_schema is_sequence test_metadata ctx =
     (let dv = dict_get constraint ''defaultValue'' in
      if truthy dv then
        if is_not_bool (is_list dv) is_sequence
        then Inr (test_metadata\<lparr>error := True,
                    error_msg := ctx @ [Txt (if truthy is_sequence
                       then '' a default value sequence was expected''
                       else '' unexpected default value sequence.'')]\<rparr>, True)
        else case (if truthy is_sequence
                   then (case dv of
                           JList vals \<Rightarrow>
                             validate_each vs vals datatype_schema (ctx @ [Txt '': defaultValue ''])
                         | _ \<Rightarrow> Inl TypeError)
                   else u_validate_schema vs dv datatype_schema (ctx @ [Txt '': defaultValue ''])) of
               Inl e \<Rightarrow> Inl e
             | Inr _ \<Rightarrow> Inr (test_metadata, False)
      else Inr (test_metadata, False))"

definition check_number_constraint ::
  "pydict \<Rightarrow> json \<Rightarrow> string \<Rightarrow> metadata \<Rightarrow> msg \<Rightarrow> pyerror + metadata" where
  "check_number_constraint constraint datatype constraint_type test_metadata ctx =
     (if truthy (dict_get constraint ''minimum'') \<or> truthy (dict_get constraint ''maximum'')
         \<or> truthy (dict_get constraint ''step'')
      then if \<not> py_in datatype numeric_primitives
           then (case str_part datatype of
                   Inl e \<Rightarrow> Inl e
                 | Inr p \<Rightarrow> Inr (test_metadata\<lparr>error := True,
                     error_msg := ctx @ [Txt '' of type '', p, Txt '' can not be constrainted by '',
                        Txt constraint_type, Txt ''.'']\<rparr>))
           else Inr test_metadata
      else Inr test_metadata)"

definition check_string_constraint ::
  "pydict \<Rightarrow> json \<Rightarrow> string \<Rightarrow> metadata \<Rightarrow> msg \<Rightarrow> pyerror + metadata" where
  "check_string_constraint constraint datatype constraint_type test_metadata ctx =
     (if truthy (dict_get constraint ''maxCharacters'') \<or> truthy (dict_get constraint ''pattern'')
      then if \<not> py_in datatype [JStr ''NcString'']
           then (case str_part datatype of
                   Inl e \<Rightarrow> Inl e
                 | Inr p \<Rightarrow> Inr (test_metadata\<lparr>error := True,
                     error_msg := ctx @ [Txt ''of type '', p, Txt '' can not be constrainted by '',
                        Txt constraint_type, Txt ''.'']\<rparr>))
           else Inr test_metadata
      else Inr test_metadata)"

definition check_constraint ::
  "validator \<Rightarrow> pydict \<Rightarrow> json \<Rightarrow> pydict \<Rightarrow> json \<Rightarrow> json \<Rightarrow> string \<Rightarrow> metadata \<Rightarrow> msg
     \<Rightarrow> pyerror + metadata" where
  "check_constraint vs constraint type_name datatype_descriptors datatype_schema is_sequence
       constraint_type test_metadata ctx =
     (case check_default_value vs constraint datatype_schema is_sequence test_metadata ctx of
        Inl e \<Rightarrow> Inl e
      | Inr (m, True) \<Rightarrow> Inr m
      | Inr (m, False) \<Rightarrow>
         (case resolve_datatype type_name datatype_descriptors of
            Inl e \<Rightarrow> Inl e
          | Inr datatype \<Rightarrow>
             (case check_number_constraint constraint datatype constraint_type m ctx of
                Inl e \<Rightarrow> Inl e
              | Inr m' \<Rightarrow> check_string_constraint constraint datatype constraint_type m' ctx)))"

section \<open>The collaborators and the state of a run\<close>

text \<open>The Python type objects that \<^verbatim>\<open>primitive_to_python_type\<close> returns, and
  \<^verbatim>\<open>isinstance\<close> for them (\<^verbatim>\<open>bool\<close> is a subclass of \<^verbatim>\<open>int\<close>).\<close>

datatype pytype = PyBool | PyInt | PyFloat | PyStr

fun isinstance :: "json \<Rightarrow> pytype \<Rightarrow> bool" where
  "isinstance (JBool b) PyBool = True"
| "isinstance (JBool b) PyInt = True"
| "isinstance (JInt i) PyInt = True"
| "isinstance (JFloat r) PyFloat = True"
| "isinstance (JStr s) PyStr = True"
| "isinstance _ _ = False"

text \<open>The mirror of the device model: \<^verbatim>\<open>NcObject\<close>, \<^verbatim>\<open>NcBlock\<close> and \<^verbatim>\<open>NcClassManager\<close> of
  \<^verbatim>\<open>IS12Utils\<close>, with the constructor arguments of lines 603, 625 and 626; the last
  argument of \<open>NcBlock\<close> is its list \<^verbatim>\<open>child_objects\<close>, which \<^verbatim>\<open>add_child_object\<close> extends.\<close>

datatype nc_object =
    NcObject json json json json
  | NcBlock json json json json json "nc_object list"
  | NcClassManager json json json pydict pydict json

fun is_NcBlock :: "nc_object \<Rightarrow> bool" where
  "is_NcBlock (NcBlock class_id oid rl member_descriptors runtime_constraints child_objects) = True"
| "is_NcBlock _ = False"

fun role :: "nc_object \<Rightarrow> json" where
  "role (NcObject class_id oid rl runtime_constraints) = rl"
| "role (NcBlock class_id oid rl member_descriptors runtime_constraints child_objects) = rl"
| "role (NcClassManager class_id oid rl class_descriptors datatype_descriptors
      runtime_constraints) = rl"

fun oid_of :: "nc_object \<Rightarrow> json" where
  "oid_of (NcObject class_id oid rl runtime_constraints) = oid"
| "oid_of (NcBlock class_id oid rl member_descriptors runtime_constraints child_objects) = oid"
| "oid_of (NcClassManager class_id oid rl class_descriptors datatype_descriptors
      runtime_constraints) = oid"

text \<open>A property-changed notification as \<^verbatim>\<open>get_notifications\<close> delivers it: \<^verbatim>\<open>oid\<close>,
  \<^verbatim>\<open>eventId\<close> and the four fields of \<^verbatim>\<open>eventData\<close>.\<close>

record notification =
  n_oid :: json
  n_eventId :: json
  n_propertyId :: json
  n_changeType :: json
  n_value :: json
  n_sequenceItemIndex :: json

text \<open>What the suite uses and this file does not contain is a parameter of the model, one
  record for all of it:
  \<^item> \<open>py_str\<close>, Python's \<^verbatim>\<open>str\<close> where its result is used as a string (a dictionary key,
    a label to write);
  \<^item> the constants and helpers of \<^verbatim>\<open>IS12Utils\<close> (\<^verbatim>\<open>ROOT_BLOCK_OID\<close>, the property and event
    identifiers, \<^verbatim>\<open>is_manager\<close>, \<^verbatim>\<open>is_non_standard_class\<close>, \<^verbatim>\<open>get_base_class_id\<close>,
    \<^verbatim>\<open>primitive_to_python_type\<close>);
  \<^item> the enumeration \<^verbatim>\<open>NcPropertyChangeType\<close>: the value of its member \<^verbatim>\<open>ValueChanged\<close>, and
    for every value the name of the member with that value, if there is one;
  \<^item> the node under test, reached through \<^verbatim>\<open>IS12Utils\<close>: each remote call either raises
    \<^verbatim>\<open>NMOSTestException\<close> (\<open>Inl\<close> of the detail of its test result) or returns a value. The
    node is taken to answer a given read in the same way throughout a run. A write with
    \<^verbatim>\<open>set_property\<close> between \<^verbatim>\<open>start_logging_notifications\<close> and
    \<^verbatim>\<open>stop_logging_notifications\<close> returns the notifications that \<^verbatim>\<open>get_notifications\<close>
    then delivers; its last argument tells the first write to an object from the second;
  \<^item> the methods \<^verbatim>\<open>get_role_paths\<close> and \<^verbatim>\<open>find_members_by_path\<close> of \<^verbatim>\<open>NcBlock\<close>, which
    work on the mirror: the role paths of a block, and the object that a role path leads
    to from a block, or \<^verbatim>\<open>None\<close>;
  \<^item> \<^verbatim>\<open>validate_schema\<close> of \<^verbatim>\<open>GenericTest\<close> and the schema and descriptor dictionaries
    loaded at set-up.\<close>

record externals =
  py_str :: "json \<Rightarrow> string"
  ROOT_BLOCK_OID :: json
  TOUCHPOINTS :: json
  MEMBERS :: json
  RUNTIME_PROPERTY_CONSTRAINTS :: json
  CONTROL_CLASSES :: json
  DATATYPES :: json
  USER_LABEL :: json
  PROPERTY_CHANGED :: json
  VALUE_CHANGED :: json
  change_type_name :: "json \<Rightarrow> string option"
  is_manager :: "json \<Rightarrow> bool"
  is_non_standard_class :: "json \<Rightarrow> bool"
  get_base_class_id :: "json \<Rightarrow> json"
  primitive_to_python_type :: "json \<Rightarrow> pytype option"
  is12_get_property :: "json \<Rightarrow> json \<Rightarrow> json + json"
  is12_get_sequence_item :: "json \<Rightarrow> json \<Rightarrow> nat \<Rightarrow> json + json"
  is12_get_sequence_length :: "json \<Rightarrow> json \<Rightarrow> json + json"
  is12_find_members_by_path :: "json \<Rightarrow> json \<Rightarrow> json + json"
  is12_update_subscriptions :: "json list \<Rightarrow> json option"
  get_role_paths :: "nc_object \<Rightarrow> json list"
  find_members_by_path :: "nc_object \<Rightarrow> json \<Rightarrow> nc_object option"
  is12_set_property :: "json \<Rightarrow> json \<Rightarrow> json \<Rightarrow> nat \<Rightarrow> json + notification list"
  validate_schema :: validator
  datatype_schemas :: pydict
  reference_datatype_schemas :: pydict
  reference_class_descriptors :: pydict

text \<open>The fields of the test object that \<^verbatim>\<open>set_up_tests\<close> initialises and the walk of the
  device model updates.\<close>

record test_state =
  unique_roles_error :: bool
  unique_oids_error :: bool
  managers_are_singletons_error :: bool
  managers_members_root_block_error :: bool
  device_model_metadata :: metadata
  organization_metadata :: metadata
  touchpoints_metadata :: metadata
  get_sequence_item_metadata :: metadata
  get_sequence_length_metadata :: metadata
  oid_cache :: "json list"

text \<open>Iteration over a value (\<^verbatim>\<open>for v in x\<close>): the items of a list, the characters of a
  string, the keys of a dictionary; any other value is not iterable. \<^verbatim>\<open>len(x)\<close> likewise.
  A numeric key is given back as a float of its value.\<close>

fun key_json :: "pykey \<Rightarrow> json" where
  "key_json KNone = JNull"
| "key_json (KNum r) = JFloat r"
| "key_json (KStr s) = JStr s"

fun py_iter :: "json \<Rightarrow> pyerror + json list" where
  "py_iter (JList xs) = Inr xs"
| "py_iter (JStr s) = Inr (map (\<lambda>c. JStr [c]) s)"
| "py_iter (JDict d) = Inr (map (\<lambda>kv. key_json (fst kv)) d)"
| "py_iter _ = Inl TypeError"

fun py_len :: "json \<Rightarrow> pyerror + nat" where
  "py_len (JList xs) = Inr (length xs)"
| "py_len (JStr s) = Inr (length s)"
| "py_len (JDict d) = Inr (length d)"
| "py_len _ = Inl TypeError"

text \<open>\<^verbatim>\<open>d.get(k)\<close> with a key that is a value.\<close>

definition dict_get_value :: "pydict \<Rightarrow> json \<Rightarrow> pyerror + json" where
  "dict_get_value d k =
     (case hash_key k of
        Inl e \<Rightarrow> Inl e
      | Inr h \<Rightarrow> Inr (case map_of d h of None \<Rightarrow> JNull | Some v \<Rightarrow> v))"

section \<open>Property checks of the device model walk\<close>

text \<open>\<^verbatim>\<open>get_property\<close> (lines 423-433): a failed read is recorded in
  \<^verbatim>\<open>device_model_metadata\<close> and \<^verbatim>\<open>None\<close> is returned.\<close>

definition get_property ::
  "externals \<Rightarrow> json \<Rightarrow> json \<Rightarrow> msg \<Rightarrow> test_state \<Rightarrow> json \<times> test_state" where
  "get_property x oid property_id ctx s =
     (case is12_get_property x oid property_id of
        Inr v \<Rightarrow> (v, s)
      | Inl detail \<Rightarrow>
          (JNull, s\<lparr>device_model_metadata := (device_model_metadata s)\<lparr>error := True,
             error_msg := error_msg (device_model_metadata s) @ ctx
                @ [Txt ''Error getting property: '', StrOf property_id, Txt '': '',
                   StrOf detail, Txt ''; '']\<rparr>\<rparr>))"

text \<open>\<^verbatim>\<open>validate_property_type\<close> (lines 348-367).\<close>

definition validate_property_type ::
  "externals \<Rightarrow> json \<Rightarrow> json \<Rightarrow> json \<Rightarrow> msg \<Rightarrow> pyerror + unit" where
  "validate_property_type x v data_type is_nullable ctx =
     (if v = JNull then
        if truthy is_nullable then Inr ()
        else Inl (NMOSTestException (ctx @ [Txt ''Non-nullable property set to null.'']))
      else case primitive_to_python_type x data_type of
          Some ty \<Rightarrow>
            if ty = PyFloat \<and> isinstance v PyInt then Inr ()
            else if \<not> isinstance v ty
              then Inl (NMOSTestException (ctx @ [StrOf v, Txt '' is not of type '', StrOf data_type]))
              else Inr ()
        | None \<Rightarrow>
           (case dict_get_value (datatype_schemas x) data_type of
              Inl e \<Rightarrow> Inl e
            | Inr schema \<Rightarrow> u_validate_schema (validate_schema x) v schema ctx))"

text \<open>\<^verbatim>\<open>check_get_sequence_item\<close> (lines 369-393). The loop compares every item read from
  the node with the item of the property value. On a difference the error flag is set and
  the message is built with \<^verbatim>\<open>" at index " + sequence_index\<close>, a string plus an integer:
  \<^verbatim>\<open>TypeError\<close>. An \<^verbatim>\<open>NMOSTestException\<close> of the read is caught and recorded.\<close>

fun check_get_sequence_item_loop ::
  "externals \<Rightarrow> json \<Rightarrow> json \<Rightarrow> msg \<Rightarrow> json list \<Rightarrow> nat \<Rightarrow> test_state \<Rightarrow> pyerror + test_state"
  where
  "check_get_sequence_item_loop x oid property_metadata ctx [] sequence_index s = Inr s"
| "check_get_sequence_item_loop x oid property_metadata ctx (property_value # rest)
       sequence_index s =
     (case py_item property_metadata ''id'' of
        Inl e \<Rightarrow> Inl e
      | Inr pid \<Rightarrow>
         (case is12_get_sequence_item x oid pid sequence_index of
            Inl detail \<Rightarrow>
              (case py_item property_metadata ''name'' of
                 Inl e \<Rightarrow> Inl e
               | Inr n \<Rightarrow>
                  (case str_part n of
                     Inl e \<Rightarrow> Inl e
                   | Inr np \<Rightarrow> Inr (s\<lparr>get_sequence_item_metadata :=
                       (get_sequence_item_metadata s)\<lparr>error := True,
                          error_msg := error_msg (get_sequence_item_metadata s) @ ctx
                            @ [np, Txt '': '', StrOf detail, Txt '', '']\<rparr>\<rparr>)))
          | Inr v \<Rightarrow>
              if \<not> py_eq property_value v
              then (case py_item property_metadata ''name'' of
                      Inl e \<Rightarrow> Inl e
                    | Inr n \<Rightarrow> (case str_part n of Inl e \<Rightarrow> Inl e | Inr np \<Rightarrow> Inl TypeError))
              else check_get_sequence_item_loop x oid property_metadata ctx rest
                     (Suc sequence_index) s))"

text \<open>The guard \<^verbatim>\<open>sequence_values is None and not property_metadata["isNullable"]\<close> of both
  sequence checks.\<close>

definition null_not_nullable :: "json \<Rightarrow> json \<Rightarrow> pyerror + bool" where
  "null_not_nullable sequence_values property_metadata =
     (if sequence_values = JNull
      then (case py_item property_metadata ''isNullable'' of
              Inl e \<Rightarrow> Inl e
            | Inr n \<Rightarrow> Inr (\<not> truthy n))
      else Inr False)"

definition non_nullable_message :: "json \<Rightarrow> msg \<Rightarrow> pyerror + msg" where
  "non_nullable_message property_metadata ctx =
     (case py_item property_metadata ''name'' of
        Inl e \<Rightarrow> Inl e
      | Inr n \<Rightarrow>
         (case str_part n of
            Inl e \<Rightarrow> Inl e
          | Inr np \<Rightarrow> Inr (ctx @ [np, Txt '': Non-nullable property set to null, ''])))"

definition check_get_sequence_item ::
  "externals \<Rightarrow> json \<Rightarrow> json \<Rightarrow> json \<Rightarrow> msg \<Rightarrow> test_state \<Rightarrow> pyerror + test_state" where
  "check_get_sequence_item x oid sequence_values property_metadata ctx s =
     (case null_not_nullable sequence_values property_metadata of
        Inl e \<Rightarrow> Inl e
      | Inr True \<Rightarrow>
         (case non_nullable_message property_metadata ctx of
            Inl e \<Rightarrow> Inl e
          | Inr m \<Rightarrow> Inr (s\<lparr>get_sequence_item_metadata :=
               (get_sequence_item_metadata s)\<lparr>error := True,
                  error_msg := error_msg (get_sequence_item_metadata s) @ m\<rparr>\<rparr>))
      | Inr False \<Rightarrow>
         (case py_iter sequence_values of
            Inl e \<Rightarrow> Inl e
          | Inr vals \<Rightarrow>
              check_get_sequence_item_loop x oid property_metadata ctx vals 0
                (s\<lparr>get_sequence_item_metadata :=
                     (get_sequence_item_metadata s)\<lparr>checked := True\<rparr>\<rparr>)))"

text \<open>\<^verbatim>\<open>check_get_sequence_length\<close> (lines 395-416).\<close>

definition check_get_sequence_length ::
  "externals \<Rightarrow> json \<Rightarrow> json \<Rightarrow> json \<Rightarrow> msg \<Rightarrow> test_state \<Rightarrow> pyerror + test_state" where
  "check_get_sequence_length x oid sequence_values property_metadata ctx s =
     (case null_not_nullable sequence_values property_metadata of
        Inl e \<Rightarrow> Inl e
      | Inr True \<Rightarrow>
         (case non_nullable_message property_metadata ctx of
            Inl e \<Rightarrow> Inl e
          | Inr m \<Rightarrow> Inr (s\<lparr>get_sequence_length_metadata :=
               (get_sequence_length_metadata s)\<lparr>error := True,
                  error_msg := error_msg (get_sequence_length_metadata s) @ m\<rparr>\<rparr>))
      | Inr False \<Rightarrow>
         (let s1 = s\<lparr>get_sequence_length_metadata :=
                       (get_sequence_length_metadata s)\<lparr>checked := True\<rparr>\<rparr>;
              md = get_sequence_length_metadata s1 in
          case py_item property_metadata ''id'' of
            Inl e \<Rightarrow> Inl e
          | Inr pid \<Rightarrow>
             (case is12_get_sequence_length x oid pid of
                Inl detail \<Rightarrow>
                  (case py_item property_metadata ''name'' of
                     Inl e \<Rightarrow> Inl e
                   | Inr n \<Rightarrow>
                      (case str_part n of
                         Inl e \<Rightarrow> Inl e
                       | Inr np \<Rightarrow> Inr (s1\<lparr>get_sequence_length_metadata := md\<lparr>error := True,
                            error_msg := error_msg md @ ctx
                               @ [np, Txt '': '', StrOf detail, Txt '', '']\<rparr>\<rparr>)))
              | Inr len \<Rightarrow>
                 (case py_len sequence_values of
                    Inl e \<Rightarrow> Inl e
                  | Inr n \<Rightarrow>
                      if py_eq len (JInt (int n)) then Inr s1
                      else (case py_item property_metadata ''name'' of
                              Inl e \<Rightarrow> Inl e
                            | Inr nm \<Rightarrow>
                               (case str_part nm of
                                  Inl e \<Rightarrow> Inl e
                                | Inr np \<Rightarrow> Inr (s1\<lparr>get_sequence_length_metadata :=
                                    md\<lparr>error := True,
                                       error_msg := error_msg md @ ctx
                                         @ [np, Txt '': GetSequenceLength error. Expected: '',
                                            StrOf (JInt (int n)), Txt '', Actual: '', StrOf len,
                                            Txt '', '']\<rparr>\<rparr>)))))))"

text \<open>\<^verbatim>\<open>check_sequence_methods\<close> (lines 418-421).\<close>

definition check_sequence_methods ::
  "externals \<Rightarrow> json \<Rightarrow> json \<Rightarrow> json \<Rightarrow> msg \<Rightarrow> test_state \<Rightarrow> pyerror + test_state" where
  "check_sequence_methods x oid sequence_values property_metadata ctx s =
     (case check_get_sequence_item x oid sequence_values property_metadata ctx s of
        Inl e \<Rightarrow> Inl e
      | Inr s1 \<Rightarrow> check_get_sequence_length x oid sequence_values property_metadata ctx s1)"

text \<open>\<^verbatim>\<open>check_object_properties\<close> (lines 435-463). The arguments of a call of
  \<^verbatim>\<open>validate_property_type\<close> are evaluated in the order in which they are written:
  \<^verbatim>\<open>class_property['typeName']\<close>, \<^verbatim>\<open>class_property['isNullable']\<close>, then the context
  string, which joins \<^verbatim>\<open>typeName\<close> and \<^verbatim>\<open>name\<close> with \<^verbatim>\<open>": "\<close> for a sequence item (line
  449) and without it for a scalar (line 461).\<close>

definition type_context :: "json \<Rightarrow> msg \<Rightarrow> bool \<Rightarrow> pyerror + msg" where
  "type_context class_property ctx with_colon =
     (case py_item class_property ''typeName'' of
        Inl e \<Rightarrow> Inl e
      | Inr tn \<Rightarrow>
         (case str_part tn of
            Inl e \<Rightarrow> Inl e
          | Inr tp \<Rightarrow>
             (case py_item class_property ''name'' of
                Inl e \<Rightarrow> Inl e
              | Inr n \<Rightarrow>
                 (case str_part n of
                    Inl e \<Rightarrow> Inl e
                  | Inr np \<Rightarrow>
                      Inr (ctx @ [tp] @ (if with_colon then [Txt '': ''] else [])
                             @ [np, Txt '': ''])))))"

definition validate_class_property ::
  "externals \<Rightarrow> json \<Rightarrow> json \<Rightarrow> msg \<Rightarrow> bool \<Rightarrow> pyerror + unit" where
  "validate_class_property x v class_property ctx with_colon =
     (case py_item class_property ''typeName'' of
        Inl e \<Rightarrow> Inl e
      | Inr tn \<Rightarrow>
         (case py_item class_property ''isNullable'' of
            Inl e \<Rightarrow> Inl e
          | Inr nullable \<Rightarrow>
             (case type_context class_property ctx with_colon of
                Inl e \<Rightarrow> Inl e
              | Inr c \<Rightarrow> validate_property_type x v tn nullable c)))"

fun validate_sequence_values :: "externals \<Rightarrow> json list \<Rightarrow> json \<Rightarrow> msg \<Rightarrow> pyerror + unit" where
  "validate_sequence_values x [] class_property ctx = Inr ()"
| "validate_sequence_values x (property_value # rest) class_property ctx =
     (case validate_class_property x property_value class_property ctx True of
        Inl e \<Rightarrow> Inl e
      | Inr _ \<Rightarrow> validate_sequence_values x rest class_property ctx)"

text \<open>The body of the loop of \<^verbatim>\<open>check_object_properties\<close> for one class property, the loop,
  and the method.\<close>

definition check_object_property ::
  "externals \<Rightarrow> json \<Rightarrow> json \<Rightarrow> msg \<Rightarrow> test_state \<Rightarrow> pyerror + test_state" where
  "check_object_property x class_property oid ctx s =
     (case py_get class_property ''id'' of
        Inl e \<Rightarrow> Inl e
      | Inr pid \<Rightarrow>
         (case get_property x oid pid ctx s of
            (object_property, s1) \<Rightarrow>
              if \<not> truthy object_property then Inr s1
              else (case py_item class_property ''isSequence'' of
                  Inl e \<Rightarrow> Inl e
                | Inr is_seq \<Rightarrow>
                    if truthy is_seq
                    then (case py_iter object_property of
                            Inl e \<Rightarrow> Inl e
                          | Inr vals \<Rightarrow>
                             (case validate_sequence_values x vals class_property ctx of
                                Inl e \<Rightarrow> Inl e
                              | Inr _ \<Rightarrow>
                                  check_sequence_methods x oid object_property class_property
                                    ctx s1))
                    else (case validate_class_property x object_property class_property ctx
                                 False of
                            Inl e \<Rightarrow> Inl e
                          | Inr _ \<Rightarrow> Inr s1))))"

fun check_object_properties_loop ::
  "externals \<Rightarrow> json list \<Rightarrow> json \<Rightarrow> msg \<Rightarrow> test_state \<Rightarrow> pyerror + test_state" where
  "check_object_properties_loop x [] oid ctx s = Inr s"
| "check_object_properties_loop x (class_property # rest) oid ctx s =
     (case check_object_property x class_property oid ctx s of
        Inl e \<Rightarrow> Inl e
      | Inr s1 \<Rightarrow> check_object_properties_loop x rest oid ctx s1)"

definition check_object_properties ::
  "externals \<Rightarrow> json \<Rightarrow> json \<Rightarrow> msg \<Rightarrow> test_state \<Rightarrow> pyerror + test_state" where
  "check_object_properties x reference_class_descriptor oid ctx s =
     (case py_item reference_class_descriptor ''properties'' of
        Inl e \<Rightarrow> Inl e
      | Inr properties \<Rightarrow>
         (case py_iter properties of
            Inl e \<Rightarrow> Inl e
          | Inr class_properties \<Rightarrow> check_object_properties_loop x class_properties oid ctx s))"

section \<open>The walk of the device model\<close>

text \<open>\<^verbatim>\<open>check_unique_roles\<close>, \<^verbatim>\<open>check_unique_oid\<close> and \<^verbatim>\<open>check_manager\<close> (lines 465-492). The
  caches are Python lists: \<^verbatim>\<open>role_cache\<close> and \<^verbatim>\<open>manager_cache\<close> are local to one call of
  \<^verbatim>\<open>check_block\<close>, \<^verbatim>\<open>oid_cache\<close> is a field of the test object.\<close>

definition check_unique_roles :: "json \<Rightarrow> json list \<Rightarrow> test_state \<Rightarrow> json list \<times> test_state" where
  "check_unique_roles rl role_cache s =
     (if py_in rl role_cache then (role_cache, s\<lparr>unique_roles_error := True\<rparr>)
      else (role_cache @ [rl], s))"

definition check_unique_oid :: "json \<Rightarrow> test_state \<Rightarrow> test_state" where
  "check_unique_oid oid s =
     (if py_in oid (oid_cache s) then s\<lparr>unique_oids_error := True\<rparr>
      else s\<lparr>oid_cache := oid_cache s @ [oid]\<rparr>)"

definition check_manager ::
  "externals \<Rightarrow> json \<Rightarrow> json \<Rightarrow> pydict \<Rightarrow> json list \<Rightarrow> test_state
     \<Rightarrow> pyerror + (json list \<times> test_state)" where
  "check_manager x class_id owner class_descriptors manager_cache s =
     (case hash_key (get_base_class_id x class_id) of
        Inl e \<Rightarrow> Inl e
      | Inr base_id \<Rightarrow>
         (case dict_item class_descriptors base_id of
            Inl e \<Rightarrow> Inl e
          | Inr d \<Rightarrow>
             (case py_item d ''name'' of
                Inl e \<Rightarrow> Inl e
              | Inr base_class_name \<Rightarrow>
                  if is_manager x class_id then
                    (let s1 = (if \<not> py_eq owner (ROOT_BLOCK_OID x)
                               then s\<lparr>managers_members_root_block_error := True\<rparr> else s)
                     in if py_in base_class_name manager_cache
                        then Inr (manager_cache, s1\<lparr>managers_are_singletons_error := True\<rparr>)
                        else Inr (manager_cache @ [base_class_name], s1))
                  else Inr (manager_cache, s))))"

text \<open>\<^verbatim>\<open>check_touchpoints\<close> (lines 494-513). An \<^verbatim>\<open>NMOSTestException\<close> of the schema
  validation is caught and recorded; any other exception leaves the method.\<close>

fun check_touchpoints_loop :: "externals \<Rightarrow> json list \<Rightarrow> msg \<Rightarrow> pyerror + unit" where
  "check_touchpoints_loop x [] ctx = Inr ()"
| "check_touchpoints_loop x (touchpoint # rest) ctx =
     (case py_item touchpoint ''contextNamespace'' of
        Inl e \<Rightarrow> Inl e
      | Inr ns \<Rightarrow>
         (let schema = (if py_eq ns (JStr ''x-nmos'')
                        then dict_get (datatype_schemas x) ''NcTouchpointNmos''
                        else dict_get (datatype_schemas x) ''NcTouchpointNmosChannelMapping'')
          in case py_item schema ''title'' of
               Inl e \<Rightarrow> Inl e
             | Inr title \<Rightarrow>
                (case str_part title of
                   Inl e \<Rightarrow> Inl e
                 | Inr tp \<Rightarrow>
                    (case u_validate_schema (validate_schema x) touchpoint schema
                            (ctx @ [tp, Txt '': '']) of
                       Inl e \<Rightarrow> Inl e
                     | Inr _ \<Rightarrow> check_touchpoints_loop x rest ctx))))"

definition check_touchpoints ::
  "externals \<Rightarrow> json \<Rightarrow> msg \<Rightarrow> test_state \<Rightarrow> pyerror + test_state" where
  "check_touchpoints x oid ctx s =
     (case get_property x oid (TOUCHPOINTS x) ctx s of
        (touchpoints, s1) \<Rightarrow>
          if touchpoints \<noteq> JNull then
            (let s2 = s1\<lparr>touchpoints_metadata := (touchpoints_metadata s1)\<lparr>checked := True\<rparr>\<rparr>
             in case py_iter touchpoints of
                  Inl e \<Rightarrow> Inl e
                | Inr tps \<Rightarrow>
                   (case check_touchpoints_loop x tps ctx of
                      Inr _ \<Rightarrow> Inr s2
                    | Inl (NMOSTestException m) \<Rightarrow>
                        Inr (s2\<lparr>touchpoints_metadata := (touchpoints_metadata s2)\<lparr>error := True,
                               error_msg := ctx @ m\<rparr>\<rparr>)
                    | Inl e \<Rightarrow> Inl e))
          else Inr s1)"

text \<open>\<^verbatim>\<open>".".join(map(str, class_id))\<close>.\<close>

fun join :: "string \<Rightarrow> string list \<Rightarrow> string" where
  "join sep [] = []"
| "join sep [a] = a"
| "join sep (a # b # rest) = a @ sep @ join sep (b # rest)"

definition class_identifier_of :: "externals \<Rightarrow> json \<Rightarrow> pyerror + string" where
  "class_identifier_of x class_id =
     (case py_iter class_id of
        Inl e \<Rightarrow> Inl e
      | Inr items \<Rightarrow> Inr (join ''.'' (map (py_str x) items)))"

text \<open>\<^verbatim>\<open>check_block\<close> (lines 515-557): the body of the loop over the member descriptors
  of one block (lines 526-557), the loop with its two local caches, and the method, which
  first recurses into the child objects that are blocks (lines 516-522) and then starts
  the loop with empty caches (lines 523-524).\<close>

definition check_block_member ::
  "externals \<Rightarrow> json \<Rightarrow> pydict \<Rightarrow> msg \<Rightarrow> json list \<Rightarrow> json list \<Rightarrow> test_state
     \<Rightarrow> pyerror + (json list \<times> json list \<times> test_state)" where
  "check_block_member x descriptor class_descriptors ctx role_cache manager_cache s =
     (case u_validate_schema (validate_schema x) descriptor
             (dict_get (datatype_schemas x) ''NcBlockMemberDescriptor'')
             [Txt ''NcBlockMemberDescriptor: ''] of
        Inl e \<Rightarrow> Inl e
      | Inr _ \<Rightarrow>
     (case py_item descriptor ''role'' of
        Inl e \<Rightarrow> Inl e
      | Inr rl \<Rightarrow>
     (case py_item descriptor ''oid'' of
        Inl e \<Rightarrow> Inl e
      | Inr oid \<Rightarrow>
     (case py_item descriptor ''classId'' of
        Inl e \<Rightarrow> Inl e
      | Inr class_id \<Rightarrow>
     (case py_item descriptor ''owner'' of
        Inl e \<Rightarrow> Inl e
      | Inr owner \<Rightarrow>
     (case check_unique_roles rl role_cache s of
        (role_cache1, s1) \<Rightarrow>
     (let s2 = check_unique_oid oid s1;
          s3 = (if is_non_standard_class x class_id
                then s2\<lparr>organization_metadata := (organization_metadata s2)\<lparr>checked := True\<rparr>\<rparr>
                else s2)
      in
     (case check_manager x class_id owner class_descriptors manager_cache s3 of
        Inl e \<Rightarrow> Inl e
      | Inr (manager_cache1, s4) \<Rightarrow>
     (case check_touchpoints x oid (ctx @ [StrOf rl, Txt '': '']) s4 of
        Inl e \<Rightarrow> Inl e
      | Inr s5 \<Rightarrow>
     (case class_identifier_of x class_id of
        Inl e \<Rightarrow> Inl e
      | Inr class_identifier \<Rightarrow>
     (case (if class_identifier \<noteq> [] \<and> map_of class_descriptors (KStr class_identifier) \<noteq> None
            then (case dict_item class_descriptors (KStr class_identifier) of
                    Inl e \<Rightarrow> Inl e
                  | Inr d \<Rightarrow> check_object_properties x d oid (ctx @ [StrOf rl, Txt '': '']) s5)
            else Inr (s5\<lparr>device_model_metadata := (device_model_metadata s5)\<lparr>error := True,
                   error_msg := error_msg (device_model_metadata s5)
                     @ [StrOf rl, Txt '': '', Txt ''Class not advertised by Class Manager: '',
                        StrOf class_id, Txt ''. '']\<rparr>\<rparr>)) of
        Inl e \<Rightarrow> Inl e
      | Inr s6 \<Rightarrow>
          Inr (role_cache1, manager_cache1,
            if map_of (reference_class_descriptors x) (KStr class_identifier) = None
               \<and> \<not> is_non_standard_class x class_id
            then s6\<lparr>organization_metadata := (organization_metadata s6)\<lparr>error := True,
                   error_msg := [StrOf rl, Txt '': '',
                      Txt ''Non-standard class id does not contain authority key: '',
                      StrOf class_id, Txt ''. '']\<rparr>\<rparr>
            else s6))))))))))))"

fun check_block_members ::
  "externals \<Rightarrow> json list \<Rightarrow> pydict \<Rightarrow> msg \<Rightarrow> json list \<Rightarrow> json list \<Rightarrow> test_state
     \<Rightarrow> pyerror + test_state" where
  "check_block_members x [] class_descriptors ctx role_cache manager_cache s = Inr s"
| "check_block_members x (descriptor # rest) class_descriptors ctx role_cache manager_cache s =
     (case check_block_member x descriptor class_descriptors ctx role_cache manager_cache s of
        Inl e \<Rightarrow> Inl e
      | Inr (role_cache1, manager_cache1, s1) \<Rightarrow>
          check_block_members x rest class_descriptors ctx role_cache1 manager_cache1 s1)"

fun check_block ::
    "externals \<Rightarrow> nc_object \<Rightarrow> pydict \<Rightarrow> msg \<Rightarrow> test_state \<Rightarrow> pyerror + test_state"
  and check_child_blocks ::
    "externals \<Rightarrow> nc_object list \<Rightarrow> pydict \<Rightarrow> msg \<Rightarrow> test_state \<Rightarrow> pyerror + test_state"
  where
  "check_block x (NcBlock class_id oid rl member_descriptors runtime_constraints child_objects)
       class_descriptors ctx s =
     (case check_child_blocks x child_objects class_descriptors ctx s of
        Inl e \<Rightarrow> Inl e
      | Inr s1 \<Rightarrow>
         (case py_iter member_descriptors of
            Inl e \<Rightarrow> Inl e
          | Inr descriptors \<Rightarrow> check_block_members x descriptors class_descriptors ctx [] [] s1))"
| "check_block x (NcObject class_id oid rl runtime_constraints) class_descriptors ctx s =
     Inl AttributeError"
| "check_block x (NcClassManager class_id oid rl cds dds runtime_constraints)
       class_descriptors ctx s = Inl AttributeError"
| "check_child_blocks x [] class_descriptors ctx s = Inr s"
| "check_child_blocks x (child_object # rest) class_descriptors ctx s =
     (if is_NcBlock child_object
      then (case check_block x child_object class_descriptors
                   (ctx @ [StrOf (role child_object), Txt '': '']) s of
              Inl e \<Rightarrow> Inl e
            | Inr s1 \<Rightarrow> check_child_blocks x rest class_descriptors ctx s1)
      else check_child_blocks x rest class_descriptors ctx s)"

section \<open>Construction of the mirror\<close>

text \<open>\<^verbatim>\<open>v[i]\<close> with an integer index that is not negative.\<close>

fun py_index :: "json \<Rightarrow> nat \<Rightarrow> pyerror + json" where
  "py_index (JList xs) i = (if i < length xs then Inr (xs ! i) else Inl IndexError)"
| "py_index (JStr s) i = (if i < length s then Inr (JStr [s ! i]) else Inl IndexError)"
| "py_index (JDict d) i = dict_item d (KNum (of_nat i))"
| "py_index _ i = Inl TypeError"

text \<open>The tests of lines 597 and 612 on the class id: the block family \<^verbatim>\<open>[1, 1, ...]\<close> and
  the class manager family \<^verbatim>\<open>[1, 3, 2, ...]\<close>. \<^verbatim>\<open>and\<close> evaluates from the left and stops at
  the first false operand.\<close>

definition item_is :: "json \<Rightarrow> nat \<Rightarrow> int \<Rightarrow> pyerror + bool" where
  "item_is class_id i n =
     (case py_index class_id i of Inl e \<Rightarrow> Inl e | Inr v \<Rightarrow> Inr (py_eq v (JInt n)))"

definition is_block_class_id :: "json \<Rightarrow> pyerror + bool" where
  "is_block_class_id class_id =
     (case py_len class_id of
        Inl e \<Rightarrow> Inl e
      | Inr n \<Rightarrow>
          if n > 1 then
            (case item_is class_id 0 1 of
               Inl e \<Rightarrow> Inl e
             | Inr False \<Rightarrow> Inr False
             | Inr True \<Rightarrow> item_is class_id 1 1)
          else Inr False)"

definition is_class_manager_class_id :: "json \<Rightarrow> pyerror + bool" where
  "is_class_manager_class_id class_id =
     (case py_len class_id of
        Inl e \<Rightarrow> Inl e
      | Inr n \<Rightarrow>
          if n > 2 then
            (case item_is class_id 0 1 of
               Inl e \<Rightarrow> Inl e
             | Inr False \<Rightarrow> Inr False
             | Inr True \<Rightarrow>
                (case item_is class_id 1 3 of
                   Inl e \<Rightarrow> Inl e
                 | Inr False \<Rightarrow> Inr False
                 | Inr True \<Rightarrow> item_is class_id 2 2))
          else Inr False)"

text \<open>\<^verbatim>\<open>get_class_manager_descriptors\<close> (lines 207-218): the dictionary comprehension keys
  every descriptor of the response by its class id joined with dots, or by its name when it
  has no class id; a later descriptor with the same key replaces the earlier one.\<close>

definition descriptor_key :: "externals \<Rightarrow> json \<Rightarrow> pyerror + pykey" where
  "descriptor_key x r =
     (case py_get r ''classId'' of
        Inl e \<Rightarrow> Inl e
      | Inr class_id \<Rightarrow>
         (case py_item r ''name'' of
            Inl e \<Rightarrow> Inl e
          | Inr name \<Rightarrow>
              if truthy class_id
              then (case class_identifier_of x class_id of
                      Inl e \<Rightarrow> Inl e
                    | Inr k \<Rightarrow> Inr (KStr k))
              else hash_key name))"

fun descriptors_by_key :: "externals \<Rightarrow> json list \<Rightarrow> pydict \<Rightarrow> pyerror + pydict" where
  "descriptors_by_key x [] descriptors = Inr descriptors"
| "descriptors_by_key x (r # rest) descriptors =
     (case descriptor_key x r of
        Inl e \<Rightarrow> Inl e
      | Inr k \<Rightarrow> descriptors_by_key x rest (AList.update k r descriptors))"

definition get_class_manager_descriptors ::
  "externals \<Rightarrow> json \<Rightarrow> json \<Rightarrow> msg \<Rightarrow> test_state \<Rightarrow> pyerror + (pydict option \<times> test_state)"
  where
  "get_class_manager_descriptors x class_manager_oid property_id rl s =
     (case get_property x class_manager_oid property_id rl s of
        (response, s1) \<Rightarrow>
          if \<not> truthy response then Inr (None, s1)
          else (case py_iter response of
                  Inl e \<Rightarrow> Inl e
                | Inr rs \<Rightarrow>
                   (case descriptors_by_key x rs [] of
                      Inl e \<Rightarrow> Inl e
                    | Inr descriptors \<Rightarrow> Inr (Some descriptors, s1))))"

text \<open>\<^verbatim>\<open>nc_object_factory\<close> (lines 589-626). The recursion follows the member lists that the
  node reports, so nothing bounds its depth: \<open>fuel\<close> is the depth allowed, and the outer
  \<open>None\<close> says that the fuel did not suffice. Inside, \<open>Inl\<close> is an exception and
  \<open>Inr (node, s)\<close> the returned object, \<open>None\<close> for Python's \<^verbatim>\<open>None\<close>, with the state
  after the call. \<open>build_other_object\<close> is the branch of lines 611-626 for a class id
  outside the block family; \<open>build_members\<close> is the loop of lines 605-608 with the
  children added so far. An object of these classes is truthy.\<close>

definition build_other_object ::
  "externals \<Rightarrow> json \<Rightarrow> json \<Rightarrow> json \<Rightarrow> msg \<Rightarrow> json \<Rightarrow> test_state
     \<Rightarrow> pyerror + (nc_object option \<times> test_state)" where
  "build_other_object x class_id oid rl ctx runtime_constraints s =
     (case is_class_manager_class_id class_id of
        Inl e \<Rightarrow> Inl e
      | Inr True \<Rightarrow>
         (case get_class_manager_descriptors x oid (CONTROL_CLASSES x) ctx s of
            Inl e \<Rightarrow> Inl e
          | Inr (class_descriptors, s1) \<Rightarrow>
             (case get_class_manager_descriptors x oid (DATATYPES x) ctx s1 of
                Inl e \<Rightarrow> Inl e
              | Inr (datatype_descriptors, s2) \<Rightarrow>
                 (case (class_descriptors, datatype_descriptors) of
                    (Some cds, Some dds) \<Rightarrow>
                      if cds = [] \<or> dds = [] then Inr (None, s2)
                      else Inr (Some (NcClassManager class_id oid rl cds dds
                                        runtime_constraints), s2)
                  | _ \<Rightarrow> Inr (None, s2))))
      | Inr False \<Rightarrow> Inr (Some (NcObject class_id oid rl runtime_constraints), s))"

fun nc_object_factory ::
    "nat \<Rightarrow> externals \<Rightarrow> json \<Rightarrow> json \<Rightarrow> json \<Rightarrow> test_state
       \<Rightarrow> (pyerror + (nc_object option \<times> test_state)) option"
  and build_members ::
    "nat \<Rightarrow> externals \<Rightarrow> json list \<Rightarrow> nc_object list \<Rightarrow> test_state
       \<Rightarrow> (pyerror + (nc_object list \<times> test_state)) option"
  where
  "nc_object_factory 0 x class_id oid rl s = None"
| "nc_object_factory (Suc fuel) x class_id oid rl s =
     (case str_part rl of
        Inl e \<Rightarrow> Some (Inl e)
      | Inr rp \<Rightarrow>
     (case get_property x oid (RUNTIME_PROPERTY_CONSTRAINTS x) [rp, Txt '': ''] s of
        (runtime_constraints, s1) \<Rightarrow>
     (case is_block_class_id class_id of
        Inl e \<Rightarrow> Some (Inl e)
      | Inr True \<Rightarrow>
         (case get_property x oid (MEMBERS x) [rp, Txt '': ''] s1 of
            (member_descriptors, s2) \<Rightarrow>
              if \<not> truthy member_descriptors then Some (Inr (None, s2))
              else (case py_iter member_descriptors of
                      Inl e \<Rightarrow> Some (Inl e)
                    | Inr ms \<Rightarrow>
                       (case build_members fuel x ms [] s2 of
                          None \<Rightarrow> None
                        | Some (Inl e) \<Rightarrow> Some (Inl e)
                        | Some (Inr (child_objects, s3)) \<Rightarrow>
                            Some (Inr (Some (NcBlock class_id oid rl member_descriptors
                                               runtime_constraints child_objects), s3)))))
      | Inr False \<Rightarrow>
          Some (build_other_object x class_id oid rl [rp, Txt '': ''] runtime_constraints s1))))"
| "build_members fuel x [] child_objects s = Some (Inr (child_objects, s))"
| "build_members fuel x (m # rest) child_objects s =
     (case py_item m ''classId'' of
        Inl e \<Rightarrow> Some (Inl e)
      | Inr class_id \<Rightarrow>
     (case py_item m ''oid'' of
        Inl e \<Rightarrow> Some (Inl e)
      | Inr oid \<Rightarrow>
     (case py_item m ''role'' of
        Inl e \<Rightarrow> Some (Inl e)
      | Inr rl \<Rightarrow>
     (case nc_object_factory fuel x class_id oid rl s of
        None \<Rightarrow> None
      | Some (Inl e) \<Rightarrow> Some (Inl e)
      | Some (Inr (None, s1)) \<Rightarrow> build_members fuel x rest child_objects s1
      | Some (Inr (Some child_object, s1)) \<Rightarrow>
          build_members fuel x rest (child_objects @ [child_object]) s1))))"

declare nc_object_factory.simps(2) [simp del]

section \<open>Search by role path\<close>

text \<open>\<^verbatim>\<open>do_find_member_by_path_test\<close> (lines 987-1027): the checks of one role path of a
  block (lines 997-1027), the loop over the role paths, and the method, which first
  recurses into the child objects that are blocks. \<open>ctx\<close> is \<^verbatim>\<open>context + block.role\<close>.\<close>

fun validate_queried_members :: "externals \<Rightarrow> json list \<Rightarrow> msg \<Rightarrow> pyerror + unit" where
  "validate_queried_members x [] ctx = Inr ()"
| "validate_queried_members x (queried_member # rest) ctx =
     (case dict_item (reference_datatype_schemas x) (KStr ''NcBlockMemberDescriptor'') of
        Inl e \<Rightarrow> Inl e
      | Inr schema \<Rightarrow>
         (case u_validate_schema (validate_schema x) queried_member schema
                 (ctx @ [Txt '': NcBlockMemberDescriptor: '']) of
            Inl e \<Rightarrow> Inl e
          | Inr _ \<Rightarrow> validate_queried_members x rest ctx))"

fun member_oids :: "json list \<Rightarrow> pyerror + json list" where
  "member_oids [] = Inr []"
| "member_oids (m # rest) =
     (case py_item m ''oid'' of
        Inl e \<Rightarrow> Inl e
      | Inr oid \<Rightarrow> (case member_oids rest of Inl e \<Rightarrow> Inl e | Inr oids \<Rightarrow> Inr (oid # oids)))"

definition check_role_path :: "externals \<Rightarrow> nc_object \<Rightarrow> msg \<Rightarrow> json \<Rightarrow> pyerror + unit" where
  "check_role_path x block ctx role_path =
     (let expected_member = find_members_by_path x block role_path in
      case is12_find_members_by_path x (oid_of block) role_path of
        Inl detail \<Rightarrow> Inl (NMOSTestException [StrOf detail])
      | Inr queried \<Rightarrow>
         (case queried of
            JList queried_members \<Rightarrow>
              (case validate_queried_members x queried_members ctx of
                 Inl e \<Rightarrow> Inl e
               | Inr _ \<Rightarrow>
                   if length queried_members \<noteq> 1
                   then Inl (NMOSTestException (ctx
                          @ [Txt '': Incorrect member found by role path: '', StrOf role_path]))
                   else (case member_oids queried_members of
                           Inl e \<Rightarrow> Inl e
                         | Inr queried_member_oids \<Rightarrow>
                            (case expected_member of
                               None \<Rightarrow> Inl AttributeError
                             | Some member \<Rightarrow>
                                 if \<not> py_in (oid_of member) queried_member_oids
                                 then Inl (NMOSTestException (ctx
                                        @ [Txt '': Unsuccessful attempt to find member by role path: '',
                                           StrOf role_path]))
                                 else Inr ())))
          | _ \<Rightarrow> Inl (NMOSTestException (ctx
                   @ [Txt '': Did not return an array of results for query: '',
                      StrOf role_path]))))"

fun check_role_paths :: "externals \<Rightarrow> nc_object \<Rightarrow> msg \<Rightarrow> json list \<Rightarrow> pyerror + unit" where
  "check_role_paths x block ctx [] = Inr ()"
| "check_role_paths x block ctx (role_path # rest) =
     (case check_role_path x block ctx role_path of
        Inl e \<Rightarrow> Inl e
      | Inr _ \<Rightarrow> check_role_paths x block ctx rest)"

fun do_find_member_by_path_test :: "externals \<Rightarrow> nc_object \<Rightarrow> msg \<Rightarrow> pyerror + unit"
  and find_member_by_path_children ::
    "externals \<Rightarrow> json \<Rightarrow> nc_object list \<Rightarrow> msg \<Rightarrow> pyerror + unit"
  where
  "do_find_member_by_path_test x
       (NcBlock class_id oid rl member_descriptors runtime_constraints child_objects) ctx =
     (case find_member_by_path_children x rl child_objects ctx of
        Inl e \<Rightarrow> Inl e
      | Inr _ \<Rightarrow>
         (case get_role_paths x
                 (NcBlock class_id oid rl member_descriptors runtime_constraints child_objects) of
            [] \<Rightarrow> Inr ()
          | role_paths \<Rightarrow>
             (case str_part rl of
                Inl e \<Rightarrow> Inl e
              | Inr rp \<Rightarrow>
                  check_role_paths x
                    (NcBlock class_id oid rl member_descriptors runtime_constraints child_objects)
                    (ctx @ [rp]) role_paths)))"
| "do_find_member_by_path_test x (NcObject class_id oid rl runtime_constraints) ctx =
     Inl AttributeError"
| "do_find_member_by_path_test x (NcClassManager class_id oid rl cds dds runtime_constraints) ctx =
     Inl AttributeError"
| "find_member_by_path_children x rl [] ctx = Inr ()"
| "find_member_by_path_children x rl (child_object # rest) ctx =
     (if is_NcBlock child_object
      then (case str_part rl of
              Inl e \<Rightarrow> Inl e
            | Inr rp \<Rightarrow>
               (case do_find_member_by_path_test x child_object (ctx @ [rp, Txt '': '']) of
                  Inl e \<Rightarrow> Inl e
                | Inr _ \<Rightarrow> find_member_by_path_children x rl rest ctx))
      else find_member_by_path_children x rl rest ctx)"

text \<open>The blocks of a mirror: the block itself and, recursively, the blocks among its child
  objects.\<close>

fun blocks_of :: "nc_object \<Rightarrow> nc_object list"
  and blocks_of_children :: "nc_object list \<Rightarrow> nc_object list" where
  "blocks_of (NcBlock class_id oid rl member_descriptors runtime_constraints child_objects) =
     NcBlock class_id oid rl member_descriptors runtime_constraints child_objects
       # blocks_of_children child_objects"
| "blocks_of (NcObject class_id oid rl runtime_constraints) = []"
| "blocks_of (NcClassManager class_id oid rl cds dds runtime_constraints) = []"
| "blocks_of_children [] = []"
| "blocks_of_children (child_object # rest) = blocks_of child_object @ blocks_of_children rest"

text \<open>What the claim about the search by role path requires of one role path of a block:
  the node answers the query with a list of exactly one member descriptor, the
  descriptor validates against the schema of \<^verbatim>\<open>NcBlockMemberDescriptor\<close>, and its oid is the
  oid of the object that the path leads to in the mirror.\<close>

definition valid_member_descriptor :: "externals \<Rightarrow> json \<Rightarrow> bool" where
  "valid_member_descriptor x queried_member =
     (case map_of (reference_datatype_schemas x) (KStr ''NcBlockMemberDescriptor'') of
        Some schema \<Rightarrow> truthy schema \<and> validate_schema x queried_member schema = Valid
      | None \<Rightarrow> False)"

definition path_result_ok :: "externals \<Rightarrow> nc_object \<Rightarrow> json \<Rightarrow> bool" where
  "path_result_ok x block role_path =
     (case is12_find_members_by_path x (oid_of block) role_path of
        Inr (JList [queried_member]) \<Rightarrow>
          valid_member_descriptor x queried_member
          \<and> (case find_members_by_path x block role_path of
               Some member \<Rightarrow>
                 (case py_item queried_member ''oid'' of
                    Inr oid \<Rightarrow> py_eq (oid_of member) oid
                  | Inl e \<Rightarrow> False)
             | None \<Rightarrow> False)
      | _ \<Rightarrow> False)"

section \<open>Notifications\<close>

text \<open>The outcome of a test: \<^verbatim>\<open>test.PASS()\<close> or \<^verbatim>\<open>test.FAIL(message)\<close>.\<close>

datatype test_result = PASS | FAIL msg

text \<open>\<^verbatim>\<open>dict.fromkeys(keys, 0)\<close>: the keys in the order of their first occurrence. A key
  must be hashable, and two keys are the same when they hash alike.\<close>

fun fromkeys :: "json list \<Rightarrow> json list \<Rightarrow> pyerror + json list" where
  "fromkeys [] keys = Inr keys"
| "fromkeys (k # rest) keys =
     (case hash_key k of
        Inl e \<Rightarrow> Inl e
      | Inr h \<Rightarrow>
          if list_ex (\<lambda>k'. hash_key k' = Inr h) keys then fromkeys rest keys
          else fromkeys rest (keys @ [k]))"

text \<open>\<^verbatim>\<open>sorted(xs)\<close> for dictionary keys: numbers are ordered by value and strings
  lexicographically, the sort is stable, and two values of other or of different kinds
  cannot be compared.\<close>

fun str_val :: "json \<Rightarrow> string" where
  "str_val (JStr s) = s"
| "str_val _ = []"

fun is_str :: "json \<Rightarrow> bool" where
  "is_str (JStr s) = True"
| "is_str _ = False"

definition py_sorted :: "json list \<Rightarrow> pyerror + json list" where
  "py_sorted xs =
     (if length xs \<le> 1 then Inr xs
      else if list_all (\<lambda>v. num_val v \<noteq> None) xs then Inr (sort_key (\<lambda>v. the (num_val v)) xs)
      else if list_all is_str xs then Inr (sort_key str_val xs)
      else Inl TypeError)"

text \<open>\<^verbatim>\<open>test_32\<close> (lines 1357-1426). The body of the loop over the logged notifications
  (lines 1390-1414) works on the error flag, the error message and the counter
  \<^verbatim>\<open>oids[oid]\<close> of the object being probed. \<^verbatim>\<open>NcPropertyChangeType(v).name\<close> raises
  \<^verbatim>\<open>ValueError\<close> for a value that no member has.\<close>

definition check_notification ::
  "externals \<Rightarrow> json \<Rightarrow> msg \<Rightarrow> json \<Rightarrow> notification \<Rightarrow> bool \<times> msg \<times> nat
     \<Rightarrow> pyerror + (bool \<times> msg \<times> nat)" where
  "check_notification x oid ctx label n acc =
     (case acc of (err, message, seen) \<Rightarrow>
      if py_eq (n_oid n) oid then
        (let (err1, message1) =
               (if \<not> py_eq (n_eventId n) (PROPERTY_CHANGED x)
                then (True, message @ ctx
                        @ [Txt ''Unexpected event type: '', StrOf (n_eventId n), Txt '', ''])
                else (err, message))
         in if \<not> py_eq (n_propertyId n) (USER_LABEL x) then Inr (err1, message1, seen)
            else
             (case (if \<not> py_eq (n_changeType n) (VALUE_CHANGED x)
                    then (case change_type_name x (n_changeType n) of
                            None \<Rightarrow> Inl ValueError
                          | Some name \<Rightarrow>
                              Inr (True, message1 @ ctx
                                     @ [Txt ''Unexpected change type: '', Txt name, Txt '', '']))
                    else Inr (err1, message1)) of
                Inl e \<Rightarrow> Inl e
              | Inr (err2, message2) \<Rightarrow>
                 (let (err3, message3) =
                        (if \<not> py_eq (n_value n) label
                         then (True, message2 @ ctx
                                 @ [Txt ''Unexpected value: '', StrOf (n_value n), Txt '', ''])
                         else (err2, message2));
                      (err4, message4) =
                        (if n_sequenceItemIndex n \<noteq> JNull
                         then (True, message3 @ ctx
                                 @ [Txt ''Unexpected sequence item index: '',
                                    StrOf (n_sequenceItemIndex n), Txt '', ''])
                         else (err3, message3))
                  in Inr (err4, message4, Suc seen))))
      else Inr acc)"

fun check_notifications ::
  "externals \<Rightarrow> json \<Rightarrow> msg \<Rightarrow> json \<Rightarrow> notification list \<Rightarrow> bool \<times> msg \<times> nat
     \<Rightarrow> pyerror + (bool \<times> msg \<times> nat)" where
  "check_notifications x oid ctx label [] acc = Inr acc"
| "check_notifications x oid ctx label (n # rest) acc =
     (case check_notification x oid ctx label n acc of
        Inl e \<Rightarrow> Inl e
      | Inr acc1 \<Rightarrow> check_notifications x oid ctx label rest acc1)"

text \<open>One write of a label with the notifications logged during it (lines 1385-1414), and
  the two writes to one object (lines 1379-1414): the new label, then the old one.\<close>

definition probe_label ::
  "externals \<Rightarrow> json \<Rightarrow> msg \<Rightarrow> json \<Rightarrow> nat \<Rightarrow> bool \<times> msg \<times> nat
     \<Rightarrow> pyerror + (bool \<times> msg \<times> nat)" where
  "probe_label x oid ctx label which acc =
     (case is12_set_property x oid (USER_LABEL x) label which of
        Inl detail \<Rightarrow> Inl (NMOSTestException [StrOf detail])
      | Inr notifications \<Rightarrow> check_notifications x oid ctx label notifications acc)"

definition probe_oid ::
  "externals \<Rightarrow> json \<Rightarrow> bool \<times> msg \<Rightarrow> pyerror + (bool \<times> msg \<times> nat)" where
  "probe_oid x oid em =
     (let new_user_label = JStr (''NMOS Testing Tool '' @ py_str x oid) in
      case is12_get_property x oid (USER_LABEL x) of
        Inl detail \<Rightarrow> Inl (NMOSTestException [StrOf detail])
      | Inr old_user_label \<Rightarrow>
         (let ctx = [Txt ''oid: '', StrOf oid, Txt '', ''] in
          case probe_label x oid ctx new_user_label 0 (fst em, snd em, 0) of
            Inl e \<Rightarrow> Inl e
          | Inr acc \<Rightarrow> probe_label x oid ctx old_user_label 1 acc))"

fun probe_oids ::
  "externals \<Rightarrow> json list \<Rightarrow> bool \<times> msg \<Rightarrow> (json \<times> nat) list
     \<Rightarrow> pyerror + (bool \<times> msg \<times> (json \<times> nat) list)" where
  "probe_oids x [] em counts = Inr (fst em, snd em, counts)"
| "probe_oids x (oid # rest) em counts =
     (case probe_oid x oid em of
        Inl e \<Rightarrow> Inl e
      | Inr (err, message, seen) \<Rightarrow> probe_oids x rest (err, message) (counts @ [(oid, seen)]))"

text \<open>The verdict of lines 1416-1426 from the counters, and the test. \<open>object_oids\<close> is the
  list \<^verbatim>\<open>[o.oid for o in device_model_objects]\<close> of line 1371.\<close>

definition verdict :: "bool \<Rightarrow> msg \<Rightarrow> (json \<times> nat) list \<Rightarrow> pyerror + test_result" where
  "verdict err message counts =
     (if \<not> list_all (\<lambda>iv. snd iv = 2) counts then
        (case py_sorted (map fst (filter (\<lambda>iv. snd iv \<noteq> 2) counts)) of
           Inl e \<Rightarrow> Inl e
         | Inr offending \<Rightarrow>
             Inr (FAIL (message @ [Txt ''Notifications not received for Oids '',
                                   StrOf (JList offending)])))
      else if \<not> list_ex (\<lambda>iv. snd iv = 2) counts
        then Inr (FAIL (message @ [Txt ''No notifications received'']))
      else if err then Inr (FAIL message) else Inr PASS)"

definition test_32 :: "externals \<Rightarrow> json list \<Rightarrow> pyerror + test_result" where
  "test_32 x object_oids =
     (case fromkeys ([ROOT_BLOCK_OID x] @ object_oids) [] of
        Inl e \<Rightarrow> Inl e
      | Inr oids \<Rightarrow>
         (case is12_update_subscriptions x oids of
            Some detail \<Rightarrow> Inl (NMOSTestException [StrOf detail])
          | None \<Rightarrow>
             (case probe_oids x oids (False, []) [] of
                Inl e \<Rightarrow> Inl e
              | Inr (err, message, counts) \<Rightarrow> verdict err message counts)))"

text \<open>The notions in which the outcome of \<open>test_32\<close> is stated. A notification logged
  while an object is probed \<^emph>\<open>matches\<close> when it carries the oid of the object and the
  property id of the user label; a matching notification \<^emph>\<open>deviates\<close> from a written label
  when its change type is not \<^verbatim>\<open>ValueChanged\<close>, its value is not the label, or its sequence
  item index is not \<^verbatim>\<open>None\<close>; a notification with the oid of the object has the \<^emph>\<open>wrong
  event\<close> when its event id is not that of the property-changed event. \<open>written_label\<close>
  and \<open>logged\<close> are the label of the first and of the second write to an object and the
  notifications logged during that write; \<open>matching_count\<close> is the number of matching
  notifications of both writes.\<close>

definition matching :: "externals \<Rightarrow> json \<Rightarrow> notification \<Rightarrow> bool" where
  "matching x oid n = (py_eq (n_oid n) oid \<and> py_eq (n_propertyId n) (USER_LABEL x))"

definition deviates :: "externals \<Rightarrow> json \<Rightarrow> notification \<Rightarrow> bool" where
  "deviates x label n =
     (\<not> py_eq (n_changeType n) (VALUE_CHANGED x) \<or> \<not> py_eq (n_value n) label
      \<or> n_sequenceItemIndex n \<noteq> JNull)"

definition wrong_event :: "externals \<Rightarrow> json \<Rightarrow> notification \<Rightarrow> bool" where
  "wrong_event x oid n = (py_eq (n_oid n) oid \<and> \<not> py_eq (n_eventId n) (PROPERTY_CHANGED x))"

definition flagged_notification :: "externals \<Rightarrow> json \<Rightarrow> json \<Rightarrow> notification \<Rightarrow> bool" where
  "flagged_notification x oid label n =
     (wrong_event x oid n \<or> (matching x oid n \<and> deviates x label n))"

definition written_label :: "externals \<Rightarrow> json \<Rightarrow> nat \<Rightarrow> json" where
  "written_label x oid which =
     (if which = 0 then JStr (''NMOS Testing Tool '' @ py_str x oid)
      else (case is12_get_property x oid (USER_LABEL x) of Inr v \<Rightarrow> v | Inl d \<Rightarrow> JNull))"

definition logged :: "externals \<Rightarrow> json \<Rightarrow> nat \<Rightarrow> notification list" where
  "logged x oid which =
     (case is12_set_property x oid (USER_LABEL x) (written_label x oid which) which of
        Inr ns \<Rightarrow> ns
      | Inl d \<Rightarrow> [])"

definition matching_count :: "externals \<Rightarrow> json \<Rightarrow> nat" where
  "matching_count x oid =
     length (filter (matching x oid) (logged x oid 0))
     + length (filter (matching x oid) (logged x oid 1))"

definition flagged :: "externals \<Rightarrow> json \<Rightarrow> bool" where
  "flagged x oid =
     (list_ex (flagged_notification x oid (written_label x oid 0)) (logged x oid 0)
      \<or> list_ex (flagged_notification x oid (written_label x oid 1)) (logged x oid 1))"

text \<open>An accumulated error message is empty or ends with the separator \<^verbatim>\<open>", "\<close>.\<close>

definition well_ended :: "msg \<Rightarrow> bool" where
  "well_ended m = (m = [] \<or> last m = Txt '', '')"

section \<open>Descriptor validation\<close>

text \<open>The nesting depth of a value, by which the recursion of \<open>validate_descriptor\<close>
  terminates.\<close>

fun max_list :: "nat list \<Rightarrow> nat" where
  "max_list [] = 0"
| "max_list (n # ns) = max n (max_list ns)"

lemma max_list_ge: "n \<in> set ns \<Longrightarrow> n \<le> max_list ns"
  by (induction ns) auto

fun depth :: "json \<Rightarrow> nat" where
  "depth (JList xs) = Suc (max_list (map depth xs))"
| "depth (JDict kvs) = Suc (max_list (map (\<lambda>kv. depth (snd kv)) kvs))"
| "depth _ = 0"

lemma depth_value: "map_of kvs k = Some v \<Longrightarrow> depth v < depth (JDict kvs)"
proof -
  assume "map_of kvs k = Some v"
  then have "(k, v) \<in> set kvs" by (rule map_of_SomeD)
  then have "depth v \<in> set (map (\<lambda>kv. depth (snd kv)) kvs)" by force
  then have "depth v \<le> max_list (map (\<lambda>kv. depth (snd kv)) kvs)" by (rule max_list_ge)
  then show ?thesis by simp
qed

text \<open>A \<^verbatim>\<open>for\<close> loop whose body returns or raises: the loop stops at the first
  exception.\<close>

fun first_error :: "('a \<Rightarrow> pyerror + unit) \<Rightarrow> 'a list \<Rightarrow> pyerror + unit" where
  "first_error f [] = Inr ()"
| "first_error f (k # ks) = (case f k of Inl e \<Rightarrow> Inl e | Inr u \<Rightarrow> first_error f ks)"

lemma first_error_cong [fundef_cong]:
  "xs = ys \<Longrightarrow> (\<And>x. x \<in> set ys \<Longrightarrow> f x = g x) \<Longrightarrow> first_error f xs = first_error g ys"
  by (induction ys arbitrary: xs) (auto split: sum.splits)

text \<open>The dictionary comprehension \<^verbatim>\<open>{item['name']: item for item in items}\<close> (lines
  177-178): every item is stored under its hashed name; an item with the name of an
  earlier one replaces it, at the position of the earlier one.\<close>

definition item_key :: "json \<Rightarrow> pyerror + pykey" where
  "item_key item =
     (case py_item item ''name'' of Inl e \<Rightarrow> Inl e | Inr name \<Rightarrow> hash_key name)"

fun name_dict :: "json list \<Rightarrow> pydict \<Rightarrow> pyerror + pydict" where
  "name_dict [] d = Inr d"
| "name_dict (item # rest) d =
     (case item_key item of
        Inl e \<Rightarrow> Inl e
      | Inr k \<Rightarrow> name_dict rest (AList.update k item d))"

lemma update_values: "snd ` set (AList.update k v d) \<subseteq> insert v (snd ` set d)"
  by (induction d) auto

lemma name_dict_values:
  "name_dict items d = Inr d' \<Longrightarrow> snd ` set d' \<subseteq> snd ` set d \<union> set items"
proof (induction items arbitrary: d)
  case Nil
  then show ?case by simp
next
  case (Cons item rest)
  from Cons.prems obtain k where "name_dict rest (AList.update k item d) = Inr d'"
    by (auto split: sum.splits)
  from Cons.IH [OF this] update_values [of k item d] show ?case by auto
qed

lemma max_list_mono: "set ms \<subseteq> set ns \<Longrightarrow> max_list ms \<le> max_list ns"
  by (induction ms) (auto simp: max_list_ge)

lemma name_dict_depth:
  assumes "name_dict items [] = Inr d"
  shows "depth (JDict d) \<le> depth (JList items)"
proof -
  from name_dict_values [OF assms] have "snd ` set d \<subseteq> set items" by simp
  then have "set (map (\<lambda>kv. depth (snd kv)) d) \<subseteq> set (map depth items)" by auto
  then have "max_list (map (\<lambda>kv. depth (snd kv)) d) \<le> max_list (map depth items)"
    by (rule max_list_mono)
  then show ?thesis by simp
qed

text \<open>\<^verbatim>\<open>for key in reference_keys\<close> iterates over a Python set, in an order that the
  language leaves open. The order is a parameter of the model: the keys are visited by
  increasing \<open>rank\<close>, keys of equal rank in the order of their insertion.\<close>

definition iteration_order :: "(pykey \<Rightarrow> nat) \<Rightarrow> pykey list \<Rightarrow> pykey list" where
  "iteration_order rank keys = sort_key rank (remdups keys)"

text \<open>\<^verbatim>\<open>validate_descriptor\<close> (lines 150-191); \<open>validate_key\<close> is the body of the loop of
  lines 163-173 for one key. \<^verbatim>\<open>descriptor.keys()\<close> raises \<^verbatim>\<open>AttributeError\<close> when the live
  value is not a dictionary, and \<^verbatim>\<open>context + key\<close> raises \<^verbatim>\<open>TypeError\<close> for a key that is
  not a string.\<close>

function (sequential) validate_descriptor ::
    "(pykey \<Rightarrow> nat) \<Rightarrow> json \<Rightarrow> json \<Rightarrow> msg \<Rightarrow> pyerror + unit"
  and validate_key ::
    "(pykey \<Rightarrow> nat) \<Rightarrow> pydict \<Rightarrow> pydict \<Rightarrow> msg \<Rightarrow> pykey \<Rightarrow> pyerror + unit"
  where
  "validate_descriptor rank (JDict reference) (JDict descriptor) ctx =
     (let reference_keys = set (map fst reference);
          descriptor_keys = set (map fst descriptor);
          key_diff = (reference_keys \<union> descriptor_keys) - (reference_keys \<inter> descriptor_keys)
      in if key_diff \<noteq> {}
         then Inl (NMOSTestException (ctx
                @ [Txt (if key_diff \<subseteq> reference_keys then ''Missing keys ''
                        else ''Additional keys ''),
                   StrOfKeys key_diff]))
         else first_error (validate_key rank reference descriptor ctx)
                (iteration_order rank (map fst reference)))"
| "validate_descriptor rank (JDict reference) descriptor ctx = Inl AttributeError"
| "validate_descriptor rank (JList reference) descriptor ctx =
     (if reference \<noteq> [] \<and> is_dict (hd reference)
      then (case name_dict reference [] of
              Inl e \<Rightarrow> Inl e
            | Inr references \<Rightarrow>
               (case py_iter descriptor of
                  Inl e \<Rightarrow> Inl e
                | Inr items \<Rightarrow>
                   (case name_dict items [] of
                      Inl e \<Rightarrow> Inl e
                    | Inr descriptors \<Rightarrow>
                        validate_descriptor rank (JDict references) (JDict descriptors) ctx)))
      else if \<not> py_eq (JList reference) descriptor
        then Inl (NMOSTestException (ctx
               @ [Txt ''Unexpected sequence. Expected: '', StrOf (JList reference),
                  Txt '' actual: '', StrOf descriptor]))
        else Inr ())"
| "validate_descriptor rank reference descriptor ctx =
     (if \<not> py_eq reference descriptor
      then Inl (NMOSTestException (ctx
             @ [Txt ''Expected value: '', StrOf reference, Txt '', actual value: '',
                StrOf descriptor]))
      else Inr ())"
| "validate_key rank reference descriptor ctx key =
     (case map_of reference key of
        None \<Rightarrow> Inl KeyError
      | Some rv \<Rightarrow>
          if key = KStr ''description'' \<and> \<not> is_dict rv then Inr ()
          else (case map_of descriptor key of
                  None \<Rightarrow> Inl KeyError
                | Some dv \<Rightarrow>
                    if key = KStr ''classId'' \<and> is_list rv
                    then (if \<not> py_eq rv dv
                          then Inl (NMOSTestException (ctx
                                 @ [Txt ''Unexpected ClassId. Expected: '', StrOf rv,
                                    Txt '' actual: '', StrOf dv]))
                          else Inr ())
                    else (case key of
                            KStr k \<Rightarrow> validate_descriptor rank rv dv (ctx @ [Txt k, Txt ''->''])
                          | _ \<Rightarrow> Inl TypeError)))"
  by pat_completeness auto
termination
  apply (relation "measure (\<lambda>a. case a of
      Inl (rank, reference, descriptor, ctx) \<Rightarrow>
        3 * depth reference + (if is_list reference then 2 else 1)
    | Inr (rank, reference, descriptor, ctx, key) \<Rightarrow> 3 * depth (JDict reference))")
     apply simp
    apply simp
  subgoal using name_dict_depth by fastforce
  subgoal for rank reference descriptor ctx key rv dv k
    using depth_value [of reference key rv] by (auto split: if_splits)
  done

declare validate_descriptor.simps [simp del] validate_key.simps [simp del]

text \<open>A descriptor as the JSON of the specification has it: every key is a string, and
  the elements of a list of objects carry a string under \<^verbatim>\<open>name\<close>.\<close>

fun is_str_key :: "pykey \<Rightarrow> bool" where
  "is_str_key (KStr k) = True"
| "is_str_key _ = False"

definition str_named :: "json \<Rightarrow> bool" where
  "str_named item = (case item_key item of Inr k \<Rightarrow> is_str_key k | Inl e \<Rightarrow> False)"

fun well_named :: "json \<Rightarrow> bool" where
  "well_named (JDict kvs) = list_all (\<lambda>kv. is_str_key (fst kv) \<and> well_named (snd kv)) kvs"
| "well_named (JList xs) =
     ((xs \<noteq> [] \<and> is_dict (hd xs) \<longrightarrow> list_all str_named xs) \<and> list_all well_named xs)"
| "well_named _ = True"

section \<open>Example inputs\<close>

text \<open>A catalog of three datatype descriptors: \<^verbatim>\<open>NcOid\<close> derives from the primitive
  \<^verbatim>\<open>NcUint32\<close>; \<^verbatim>\<open>NcUint32\<close> and \<^verbatim>\<open>NcString\<close> are primitives.\<close>

definition example_catalog :: pydict where
  "example_catalog =
     [(KStr ''NcOid'',
         JDict [(KStr ''name'', JStr ''NcOid''), (KStr ''parentType'', JStr ''NcUint32'')]),
      (KStr ''NcUint32'',
         JDict [(KStr ''name'', JStr ''NcUint32''), (KStr ''parentType'', JNull)]),
      (KStr ''NcString'',
         JDict [(KStr ''name'', JStr ''NcString''), (KStr ''parentType'', JNull)])]"

text \<open>The metadata of \<^verbatim>\<open>set_up_tests\<close>.\<close>

definition no_metadata :: metadata where
  "no_metadata = \<lparr>checked = False, error = False, error_msg = []\<rparr>"

text \<open>Python's \<^verbatim>\<open>str\<close> on integers and strings, for the examples.\<close>

fun str_nat :: "nat \<Rightarrow> string" where
  "str_nat n = (if n < 10 then [''0123456789'' ! n]
      else str_nat (n div 10) @ [''0123456789'' ! (n mod 10)])"

declare str_nat.simps [simp del]

fun example_str :: "json \<Rightarrow> string" where
  "example_str (JInt i) = (if i < 0 then ''-'' @ str_nat (nat (- i)) else str_nat (nat i))"
| "example_str (JStr s) = s"
| "example_str _ = []"

text \<open>Collaborators for the examples: a node that answers every property read with
  \<^verbatim>\<open>null\<close>, a validator that accepts everything, managers recognised by the class id
  prefix \<^verbatim>\<open>[1, 3]\<close>, and the descriptors of the block and device manager classes.\<close>

definition example_externals :: externals where
  "example_externals = \<lparr>
     py_str = example_str,
     ROOT_BLOCK_OID = JInt 1,
     TOUCHPOINTS = JStr ''1p7'',
     MEMBERS = JStr ''2p2'',
     RUNTIME_PROPERTY_CONSTRAINTS = JStr ''1p8'',
     CONTROL_CLASSES = JStr ''3p1'',
     DATATYPES = JStr ''3p2'',
     USER_LABEL = JStr ''1p6'',
     PROPERTY_CHANGED = JStr ''1e1'',
     VALUE_CHANGED = JInt 0,
     change_type_name = (\<lambda>v. if v = JInt 0 then Some ''ValueChanged''
        else if v = JInt 1 then Some ''SequenceItemAdded''
        else if v = JInt 2 then Some ''SequenceItemChanged''
        else if v = JInt 3 then Some ''SequenceItemRemoved'' else None),
     is_manager = (\<lambda>class_id. case class_id of JList (JInt a # JInt b # rest) \<Rightarrow> a = 1 \<and> b = 3
        | _ \<Rightarrow> False),
     is_non_standard_class = (\<lambda>class_id. False),
     get_base_class_id = (\<lambda>class_id. case class_id of
          JList items \<Rightarrow> JStr (join ''.'' (map example_str items)) | _ \<Rightarrow> JNull),
     primitive_to_python_type = (\<lambda>t. if t = JStr ''NcString'' then Some PyStr else None),
     is12_get_property = (\<lambda>oid property_id. Inr JNull),
     is12_get_sequence_item = (\<lambda>oid property_id i. Inr JNull),
     is12_get_sequence_length = (\<lambda>oid property_id. Inr JNull),
     is12_find_members_by_path = (\<lambda>oid path. Inr (JList [])),
     is12_update_subscriptions = (\<lambda>oids. None),
     get_role_paths = (\<lambda>block. []),
     find_members_by_path = (\<lambda>block role_path. None),
     is12_set_property = (\<lambda>oid property_id v n. Inr []),
     validate_schema = (\<lambda>payload schema. Valid),
     datatype_schemas = [(KStr ''NcBlockMemberDescriptor'',
        JDict [(KStr ''title'', JStr ''NcBlockMemberDescriptor'')])],
     reference_datatype_schemas = [(KStr ''NcBlockMemberDescriptor'',
        JDict [(KStr ''title'', JStr ''NcBlockMemberDescriptor'')])],
     reference_class_descriptors =
       [(KStr ''1.1'', JDict [(KStr ''name'', JStr ''NcBlock''), (KStr ''properties'', JList [])]),
        (KStr ''1.3.1'', JDict [(KStr ''name'', JStr ''NcDeviceManager''),
            (KStr ''properties'', JList [])])]\<rparr>"

definition initial_state :: test_state where
  "initial_state = \<lparr>
     unique_roles_error = False,
     unique_oids_error = False,
     managers_are_singletons_error = False,
     managers_members_root_block_error = False,
     device_model_metadata = no_metadata,
     organization_metadata = no_metadata,
     touchpoints_metadata = no_metadata,
     get_sequence_item_metadata = no_metadata,
     get_sequence_length_metadata = no_metadata,
     oid_cache = []\<rparr>"

text \<open>A class property that is neither nullable nor a sequence.\<close>

definition example_property :: json where
  "example_property = JDict [(KStr ''id'', JStr ''1p6''), (KStr ''name'', JStr ''userLabel''),
     (KStr ''typeName'', JStr ''NcString''), (KStr ''isNullable'', JBool False),
     (KStr ''isSequence'', JBool False)]"

text \<open>A device model with two device managers (class id \<^verbatim>\<open>[1, 3, 1]\<close>): one is a member of
  the root block (oid 1), the other a member of the nested block with oid 3.\<close>

definition member_descriptor :: "int list \<Rightarrow> int \<Rightarrow> string \<Rightarrow> int \<Rightarrow> json" where
  "member_descriptor class_id oid rl owner =
     JDict [(KStr ''role'', JStr rl), (KStr ''oid'', JInt oid),
            (KStr ''classId'', JList (map JInt class_id)), (KStr ''owner'', JInt owner)]"

definition example_class_descriptors :: pydict where
  "example_class_descriptors =
     [(KStr ''1.1'', JDict [(KStr ''name'', JStr ''NcBlock''), (KStr ''properties'', JList [])]),
      (KStr ''1.3.1'', JDict [(KStr ''name'', JStr ''NcDeviceManager''),
          (KStr ''properties'', JList [])])]"

definition two_managers_model :: nc_object where
  "two_managers_model =
     NcBlock (JList [JInt 1, JInt 1]) (JInt 1) (JStr ''root'')
       (JList [member_descriptor [1, 3, 1] 2 ''DeviceManager'' 1,
               member_descriptor [1, 1] 3 ''inner'' 1])
       JNull
       [NcObject (JList [JInt 1, JInt 3, JInt 1]) (JInt 2) (JStr ''DeviceManager'') JNull,
        NcBlock (JList [JInt 1, JInt 1]) (JInt 3) (JStr ''inner'')
          (JList [member_descriptor [1, 3, 1] 4 ''SecondDeviceManager'' 3])
          JNull
          [NcObject (JList [JInt 1, JInt 3, JInt 1]) (JInt 4) (JStr ''SecondDeviceManager'')
             JNull]]"

text \<open>Two nodes. On the first, the root block (oid 1) has one member, a block with oid 2
  whose member list is read successfully and is empty. On the second, every read of a
  member list fails.\<close>

definition empty_block_externals :: externals where
  "empty_block_externals = example_externals\<lparr>is12_get_property :=
     (\<lambda>oid property_id.
        if property_id = JStr ''2p2''
        then (if oid = JInt 1 then Inr (JList [member_descriptor [1, 1] 2 ''empty'' 1])
              else Inr (JList []))
        else Inr JNull)\<rparr>"

definition failing_block_externals :: externals where
  "failing_block_externals = example_externals\<lparr>is12_get_property :=
     (\<lambda>oid property_id.
        if property_id = JStr ''2p2'' then Inl (JStr ''Timeout'') else Inr JNull)\<rparr>"

text \<open>A node that answers every write of a property with one notification for that
  object and property, carrying the written value.\<close>

definition compliant_externals :: externals where
  "compliant_externals = example_externals\<lparr>is12_set_property :=
     (\<lambda>oid property_id v which.
        Inr [\<lparr>n_oid = oid, n_eventId = JStr ''1e1'', n_propertyId = property_id,
              n_changeType = JInt 0, n_value = v, n_sequenceItemIndex = JNull\<rparr>])\<rparr>"

text \<open>A device model with one manager under the root block, and a node and mirror that
  both resolve the role path \<^verbatim>\<open>["DeviceManager"]\<close> to that manager.\<close>

definition one_manager_model :: nc_object where
  "one_manager_model =
     NcBlock (JList [JInt 1, JInt 1]) (JInt 1) (JStr ''root'')
       (JList [member_descriptor [1, 3, 1] 2 ''DeviceManager'' 1])
       JNull
       [NcObject (JList [JInt 1, JInt 3, JInt 1]) (JInt 2) (JStr ''DeviceManager'') JNull]"

definition path_externals :: externals where
  "path_externals = example_externals\<lparr>
     get_role_paths := (\<lambda>block. if oid_of block = JInt 1 then [JList [JStr ''DeviceManager'']]
        else []),
     find_members_by_path := (\<lambda>block role_path.
        if role_path = JList [JStr ''DeviceManager'']
        then Some (NcObject (JList [JInt 1, JInt 3, JInt 1]) (JInt 2) (JStr ''DeviceManager'') JNull)
        else None),
     is12_find_members_by_path := (\<lambda>oid role_path.
        if role_path = JList [JStr ''DeviceManager'']
        then Inr (JList [member_descriptor [1, 3, 1] 2 ''DeviceManager'' 1])
        else Inr (JList []))\<rparr>"

text \<open>Two descriptors of one property that differ in the free text under
  \<^verbatim>\<open>description\<close> only, and one that lacks the key \<^verbatim>\<open>name\<close>.\<close>

definition description_reference :: pydict where
  "description_reference = [(KStr ''name'', JStr ''enabled''), (KStr ''description'', JStr ''A'')]"

definition description_live :: pydict where
  "description_live = [(KStr ''name'', JStr ''enabled''), (KStr ''description'', JStr ''B'')]"

definition missing_key_live :: pydict where
  "missing_key_live = [(KStr ''description'', JStr ''B'')]"

text \<open>A list of two field descriptors, the same two in the other order, and a list of
  numbers.\<close>

definition object_items :: "json list" where
  "object_items =
     [JDict [(KStr ''name'', JStr ''oid''), (KStr ''typeName'', JStr ''NcOid'')],
      JDict [(KStr ''name'', JStr ''role''), (KStr ''typeName'', JStr ''NcString'')]]"

definition permuted_items :: "json list" where
  "permuted_items =
     [JDict [(KStr ''name'', JStr ''role''), (KStr ''typeName'', JStr ''NcString'')],
      JDict [(KStr ''name'', JStr ''oid''), (KStr ''typeName'', JStr ''NcOid'')]]"

definition plain_items :: "json list" where
  "plain_items = [JInt 1, JInt 2]"

text \<open>Two field descriptors that share the name \<^verbatim>\<open>oid\<close>, and the second of them
  alone.\<close>

definition shared_name_items :: "json list" where
  "shared_name_items =
     [JDict [(KStr ''name'', JStr ''oid''), (KStr ''typeName'', JStr ''NcOid'')],
      JDict [(KStr ''name'', JStr ''oid''), (KStr ''typeName'', JStr ''NcString'')]]"

definition single_item :: "json list" where
  "single_item = [JDict [(KStr ''name'', JStr ''oid''), (KStr ''typeName'', JStr ''NcString'')]]"

section \<open>Base type resolution\<close>

lemma resolve_datatype_root:
  assumes "hash_key t = Inr k" and "map_of dd k = Some (JDict d)"
    and "\<not> truthy (dict_get d ''parentType'')"
  shows "resolve_datatype t dd = Inr t"
  using assms by (simp add: resolve_datatype.simps dict_item_def)

lemma resolve_datatype_parent:
  assumes "hash_key t = Inr k" and "map_of dd k = Some (JDict d)"
    and "truthy (dict_get d ''parentType'')"
  shows "resolve_datatype t dd = Inl TypeError"
  using assms by (simp add: resolve_datatype.simps dict_item_def)

lemma example_catalog_NcString:
  "map_of example_catalog (KStr ''NcString'')
      = Some (JDict [(KStr ''name'', JStr ''NcString''), (KStr ''parentType'', JNull)])"
  by (simp add: example_catalog_def)

lemma resolve_datatype_NcString:
  "resolve_datatype (JStr ''NcString'') example_catalog = Inr (JStr ''NcString'')"
  by (rule resolve_datatype_root [where k = "KStr ''NcString''", OF _ example_catalog_NcString])
    (simp_all add: dict_get_def)

text \<open>C1. The claim: a type whose descriptor declares no parent resolves to itself, and
  a type whose descriptor declares a parent resolves to the root primitive reached along
  the \<^verbatim>\<open>parentType\<close> links. The first half holds (\<open>resolve_datatype_root\<close>). The
  second half fails on the code: on the catalog above the contract \<open>ResolveBaseType\<close>
  resolves \<^verbatim>\<open>NcOid\<close> to \<^verbatim>\<open>NcUint32\<close>, while \<open>resolve_datatype\<close> raises \<^verbatim>\<open>TypeError\<close>
  at its recursive call, as it does for every type with a parent
  (\<open>resolve_datatype_parent\<close>).\<close>

theorem resolve_datatype_derived_raises:
  "resolve_datatype (JStr ''NcOid'') example_catalog = Inl TypeError
   \<and> ResolveBaseType 2 ''NcOid'' example_catalog = Some ''NcUint32''"
  by (simp add: resolve_datatype.simps dict_item_def example_catalog_def dict_get_def
      numeral_2_eq_2)

section \<open>Constraint legality\<close>

lemma py_in_string: "py_in (JStr s) [JStr t] = (s = t)"
  by (simp add: py_in_def)

lemma integer_is_numeric:
  "py_in (JStr t) integer_primitives \<Longrightarrow> py_in (JStr t) numeric_primitives"
  by (auto simp: py_in_def integer_primitives_def numeric_primitives_def)

lemma check_default_value_falsy:
  "\<not> truthy (dict_get c ''defaultValue'')
     \<Longrightarrow> check_default_value vs c schema is_seq m ctx = Inr (m, False)"
  by (simp add: check_default_value_def)

lemma check_default_value_cases:
  "check_default_value vs c schema is_seq m ctx = Inr (m', b)
     \<Longrightarrow> (b \<and> error m') \<or> (\<not> b \<and> m' = m)"
  by (auto simp: check_default_value_def Let_def split: if_splits sum.splits)

lemma check_number_constraint_string:
  "check_number_constraint c (JStr t) ctype m ctx =
     Inr (if (truthy (dict_get c ''minimum'') \<or> truthy (dict_get c ''maximum'')
               \<or> truthy (dict_get c ''step'')) \<and> \<not> py_in (JStr t) numeric_primitives
          then m\<lparr>error := True,
                 error_msg := ctx @ [Txt '' of type '', Txt t, Txt '' can not be constrainted by '',
                        Txt ctype, Txt ''.'']\<rparr>
          else m)"
  by (simp add: check_number_constraint_def)

lemma check_string_constraint_string:
  "check_string_constraint c (JStr t) ctype m ctx =
     Inr (if (truthy (dict_get c ''maxCharacters'') \<or> truthy (dict_get c ''pattern''))
               \<and> t \<noteq> ''NcString''
          then m\<lparr>error := True,
                 error_msg := ctx @ [Txt ''of type '', Txt t, Txt '' can not be constrainted by '',
                        Txt ctype, Txt ''.'']\<rparr>
          else m)"
  by (simp add: check_string_constraint_def py_in_string)

lemma dict_get_nullify:
  "dict_get (map (\<lambda>(k, v). (k, if truthy v then v else JNull)) c) k
     = (if truthy (dict_get c k) then dict_get c k else JNull)"
  by (auto simp: dict_get_def map_of_map split: option.splits)

lemma check_default_value_nullify:
  "check_default_value vs (map (\<lambda>(k, v). (k, if truthy v then v else JNull)) c) schema is_seq m ctx
     = check_default_value vs c schema is_seq m ctx"
  by (simp add: check_default_value_def dict_get_nullify Let_def)

lemma check_number_constraint_nullify:
  "check_number_constraint (map (\<lambda>(k, v). (k, if truthy v then v else JNull)) c) b ctype m ctx
     = check_number_constraint c b ctype m ctx"
  by (simp add: check_number_constraint_def dict_get_nullify)

lemma check_string_constraint_nullify:
  "check_string_constraint (map (\<lambda>(k, v). (k, if truthy v then v else JNull)) c) b ctype m ctx
     = check_string_constraint c b ctype m ctx"
  by (simp add: check_string_constraint_def dict_get_nullify)

text \<open>C2, as amended. Take a type name \<open>t\<close> whose descriptor in the catalog declares no
  (truthy) \<^verbatim>\<open>parentType\<close>, so that \<open>t\<close> is its own base type, and any constraint set \<open>c\<close>.
  Without a truthy default value \<open>check_constraint\<close> returns. Whenever it returns, the
  metadata it returns has the error flag set if \<^verbatim>\<open>minimum\<close>, \<^verbatim>\<open>maximum\<close> or \<^verbatim>\<open>step\<close> is
  truthy and \<open>t\<close> is not one of the eight numeric primitives, and also if
  \<^verbatim>\<open>maxCharacters\<close> or \<^verbatim>\<open>pattern\<close> is truthy and \<open>t\<close> is not \<^verbatim>\<open>NcString\<close>; and the
  metadata is returned unchanged if \<open>t\<close> is an integer primitive and neither a default
  value nor a string constraint is truthy. Nothing is said about a type that declares a
  parent.\<close>

theorem check_constraint_legality:
  assumes "map_of dd (KStr t) = Some (JDict desc)"
    and "\<not> truthy (dict_get desc ''parentType'')"
  shows "(\<not> truthy (dict_get c ''defaultValue'')
            \<longrightarrow> (\<exists>m'. check_constraint vs c (JStr t) dd schema is_seq ctype m ctx = Inr m'))
     \<and> (\<forall>m'. check_constraint vs c (JStr t) dd schema is_seq ctype m ctx = Inr m' \<longrightarrow>
          ((truthy (dict_get c ''minimum'') \<or> truthy (dict_get c ''maximum'')
              \<or> truthy (dict_get c ''step''))
            \<and> \<not> py_in (JStr t) numeric_primitives \<longrightarrow> error m')
        \<and> ((truthy (dict_get c ''maxCharacters'') \<or> truthy (dict_get c ''pattern''))
            \<and> t \<noteq> ''NcString'' \<longrightarrow> error m')
        \<and> (\<not> truthy (dict_get c ''defaultValue'') \<and> \<not> truthy (dict_get c ''maxCharacters'')
            \<and> \<not> truthy (dict_get c ''pattern'') \<and> py_in (JStr t) integer_primitives
            \<longrightarrow> m' = m))"
proof -
  have r: "resolve_datatype (JStr t) dd = Inr (JStr t)"
    using assms by (intro resolve_datatype_root[where k = "KStr t"]) simp_all
  have returns: "\<exists>m'. check_constraint vs c (JStr t) dd schema is_seq ctype m ctx = Inr m'"
    if "\<not> truthy (dict_get c ''defaultValue'')"
    using that
    by (simp add: check_constraint_def check_default_value_falsy r
        check_number_constraint_string check_string_constraint_string)
  have props: "((truthy (dict_get c ''minimum'') \<or> truthy (dict_get c ''maximum'')
              \<or> truthy (dict_get c ''step''))
            \<and> \<not> py_in (JStr t) numeric_primitives \<longrightarrow> error m')
        \<and> ((truthy (dict_get c ''maxCharacters'') \<or> truthy (dict_get c ''pattern''))
            \<and> t \<noteq> ''NcString'' \<longrightarrow> error m')
        \<and> (\<not> truthy (dict_get c ''defaultValue'') \<and> \<not> truthy (dict_get c ''maxCharacters'')
            \<and> \<not> truthy (dict_get c ''pattern'') \<and> py_in (JStr t) integer_primitives
            \<longrightarrow> m' = m)"
    if ret: "check_constraint vs c (JStr t) dd schema is_seq ctype m ctx = Inr m'" for m'
  proof (cases "check_default_value vs c schema is_seq m ctx")
    case (Inl e)
    with ret show ?thesis by (simp add: check_constraint_def)
  next
    case (Inr p)
    obtain m1 b where p: "p = (m1, b)" by (cases p)
    from check_default_value_cases [of vs c schema is_seq m ctx m1 b] Inr p
    have dv: "(b \<and> error m1) \<or> (\<not> b \<and> m1 = m)" by simp
    show ?thesis
    proof (cases b)
      case True
      with ret Inr p have "m' = m1" by (simp add: check_constraint_def)
      moreover from dv True have "error m1" by simp
      moreover have "truthy (dict_get c ''defaultValue'')"
        using Inr p True by (auto simp: check_default_value_def Let_def split: if_splits)
      ultimately show ?thesis by simp
    next
      case False
      with dv have m1: "m1 = m" by simp
      from ret Inr p False m1 show ?thesis
        using integer_is_numeric [of t]
        by (auto simp: check_constraint_def r check_number_constraint_string
            check_string_constraint_string split: if_splits)
    qed
  qed
  from returns props show ?thesis by blast
qed

text \<open>The amended claim at a range constraint \<^verbatim>\<open>{"minimum": 1}\<close> on the string
  primitive: the check returns with the error flag set.\<close>

theorem check_constraint_legality_witness:
  "\<exists>m'. check_constraint (\<lambda>p s. Valid) [(KStr ''minimum'', JInt 1)] (JStr ''NcString'')
           example_catalog JNull (JBool False) ''NcPropertyConstraintsNumber'' no_metadata []
         = Inr m' \<and> error m'"
proof -
  have h2: "\<not> truthy (dict_get [(KStr ''name'', JStr ''NcString''), (KStr ''parentType'', JNull)]
      ''parentType'')"
    by (simp add: dict_get_def)
  have h3: "\<not> truthy (dict_get [(KStr ''minimum'', JInt 1)] ''defaultValue'')"
    by (simp add: dict_get_def)
  have h4: "truthy (dict_get [(KStr ''minimum'', JInt 1)] ''minimum'')"
    by (simp add: dict_get_def)
  have h5: "\<not> py_in (JStr ''NcString'') numeric_primitives"
    by (simp add: py_in_def numeric_primitives_def)
  from check_constraint_legality [OF example_catalog_NcString h2, of "[(KStr ''minimum'', JInt 1)]"
      "\<lambda>p s. Valid" JNull "JBool False" "''NcPropertyConstraintsNumber''" no_metadata "[]"]
  show ?thesis using h3 h4 h5 by blast
qed

text \<open>C2 as stated fails: the constraint set \<^verbatim>\<open>{"minimum": 0}\<close> contains a minimum, the
  base type resolved from \<^verbatim>\<open>NcString\<close> is \<^verbatim>\<open>NcString\<close>, which is not a numeric
  primitive, and \<open>check_constraint\<close> returns the metadata unchanged, with no error
  recorded.\<close>

theorem check_constraint_zero_minimum_counterexample:
  "dict_get [(KStr ''minimum'', JInt 0)] ''minimum'' = JInt 0
   \<and> resolve_datatype (JStr ''NcString'') example_catalog = Inr (JStr ''NcString'')
   \<and> \<not> py_in (JStr ''NcString'') numeric_primitives
   \<and> check_constraint (\<lambda>p s. Valid) [(KStr ''minimum'', JInt 0)] (JStr ''NcString'')
           example_catalog JNull (JBool False) ''NcPropertyConstraintsNumber'' no_metadata []
       = Inr no_metadata
   \<and> \<not> error no_metadata"
  by (simp add: check_constraint_def check_default_value_falsy check_number_constraint_string
      check_string_constraint_string resolve_datatype_NcString dict_get_def
      py_in_def numeric_primitives_def no_metadata_def)

text \<open>C10. \<open>check_constraint\<close> reads each of the six constraint fields through its truth
  value only: replacing every falsy field (\<^verbatim>\<open>0\<close>, \<^verbatim>\<open>0.0\<close>, \<^verbatim>\<open>""\<close>, \<^verbatim>\<open>[]\<close>,
  \<^verbatim>\<open>False\<close>) by \<^verbatim>\<open>None\<close> never changes the outcome. When all six fields are falsy, no
  default value is validated and no legality check is made: the outcome is the metadata
  as it was, unless the resolution of the type name itself raises.\<close>

theorem check_constraint_falsy_fields:
  "check_constraint vs c t dd schema is_seq ctype m ctx
     = check_constraint vs (map (\<lambda>(k, v). (k, if truthy v then v else JNull)) c) t dd schema
         is_seq ctype m ctx
   \<and> (\<not> truthy (dict_get c ''defaultValue'') \<and> \<not> truthy (dict_get c ''minimum'')
       \<and> \<not> truthy (dict_get c ''maximum'') \<and> \<not> truthy (dict_get c ''step'')
       \<and> \<not> truthy (dict_get c ''maxCharacters'') \<and> \<not> truthy (dict_get c ''pattern'')
      \<longrightarrow> check_constraint vs c t dd schema is_seq ctype m ctx
            = (case resolve_datatype t dd of Inl e \<Rightarrow> Inl e | Inr b \<Rightarrow> Inr m))"
proof -
  have a: "check_constraint vs c t dd schema is_seq ctype m ctx
     = check_constraint vs (map (\<lambda>(k, v). (k, if truthy v then v else JNull)) c) t dd schema
         is_seq ctype m ctx"
    by (simp add: check_constraint_def check_default_value_nullify
        check_number_constraint_nullify check_string_constraint_nullify
        cong: sum.case_cong prod.case_cong bool.case_cong)
  have b: "check_constraint vs c t dd schema is_seq ctype m ctx
            = (case resolve_datatype t dd of Inl e \<Rightarrow> Inl e | Inr b \<Rightarrow> Inr m)"
    if "\<not> truthy (dict_get c ''defaultValue'')" "\<not> truthy (dict_get c ''minimum'')"
       "\<not> truthy (dict_get c ''maximum'')" "\<not> truthy (dict_get c ''step'')"
       "\<not> truthy (dict_get c ''maxCharacters'')" "\<not> truthy (dict_get c ''pattern'')"
    using that
    by (simp add: check_constraint_def check_default_value_falsy check_number_constraint_def
        check_string_constraint_def split: sum.splits)
  from a b show ?thesis by blast
qed

text \<open>A range constraint given by zero bounds only, on the string primitive, is not
  flagged.\<close>

theorem check_constraint_falsy_fields_witness:
  "check_constraint (\<lambda>p s. Valid)
       [(KStr ''minimum'', JInt 0), (KStr ''maximum'', JFloat 0), (KStr ''step'', JInt 0)]
       (JStr ''NcString'') example_catalog JNull (JBool False) ''NcPropertyConstraintsNumber''
       no_metadata []
     = Inr no_metadata"
proof -
  let ?c = "[(KStr ''minimum'', JInt 0), (KStr ''maximum'', JFloat 0), (KStr ''step'', JInt 0)]"
  have falsy: "\<not> truthy (dict_get ?c ''defaultValue'') \<and> \<not> truthy (dict_get ?c ''minimum'')
       \<and> \<not> truthy (dict_get ?c ''maximum'') \<and> \<not> truthy (dict_get ?c ''step'')
       \<and> \<not> truthy (dict_get ?c ''maxCharacters'') \<and> \<not> truthy (dict_get ?c ''pattern'')"
    by (simp add: dict_get_def)
  from check_constraint_falsy_fields [of "\<lambda>p s. Valid" ?c "JStr ''NcString''" example_catalog
      JNull "JBool False" "''NcPropertyConstraintsNumber''" no_metadata "[]"]
  have "check_constraint (\<lambda>p s. Valid) ?c (JStr ''NcString'') example_catalog JNull (JBool False)
      ''NcPropertyConstraintsNumber'' no_metadata []
     = (case resolve_datatype (JStr ''NcString'') example_catalog of Inl e \<Rightarrow> Inl e
        | Inr b \<Rightarrow> Inr no_metadata)"
    using falsy by blast
  then show ?thesis by (simp add: resolve_datatype_NcString)
qed

section \<open>Falsy property values\<close>

text \<open>C9. For a class property of a mirrored object, read with \<open>get_property\<close>: when the
  read returns a falsy value, \<open>check_object_properties\<close> goes on with the next property
  from the same state, so that no type validation and no sequence check has run and
  nothing is recorded; when the read fails, it goes on with the next property after
  recording the error in \<^verbatim>\<open>device_model_metadata\<close>.\<close>

theorem check_object_properties_skips_falsy:
  assumes "py_get class_property ''id'' = Inr pid"
  shows "(\<forall>v. is12_get_property x oid pid = Inr v \<and> \<not> truthy v \<longrightarrow>
            check_object_properties_loop x (class_property # rest) oid ctx s
              = check_object_properties_loop x rest oid ctx s)
       \<and> (\<forall>detail. is12_get_property x oid pid = Inl detail \<longrightarrow>
            check_object_properties_loop x (class_property # rest) oid ctx s
              = check_object_properties_loop x rest oid ctx
                  (s\<lparr>device_model_metadata := (device_model_metadata s)\<lparr>error := True,
                     error_msg := error_msg (device_model_metadata s) @ ctx
                       @ [Txt ''Error getting property: '', StrOf pid, Txt '': '',
                          StrOf detail, Txt ''; '']\<rparr>\<rparr>))"
  using assms by (simp add: check_object_property_def get_property_def)

text \<open>A property that is not nullable and whose value on the node is \<^verbatim>\<open>null\<close> passes the
  check without a trace, although its type validation raises.\<close>

theorem check_object_properties_skips_falsy_witness:
  "check_object_properties_loop example_externals [example_property] (JInt 5) [] initial_state
     = Inr initial_state
   \<and> validate_class_property example_externals JNull example_property [] False
     = Inl (NMOSTestException [Txt ''NcString'', Txt ''userLabel'', Txt '': '',
          Txt ''Non-nullable property set to null.''])"
proof -
  have id: "py_get example_property ''id'' = Inr (JStr ''1p6'')"
    by (simp add: example_property_def dict_get_def)
  have rd: "is12_get_property example_externals (JInt 5) (JStr ''1p6'') = Inr JNull \<and> \<not> truthy JNull"
    by (simp add: example_externals_def)
  from check_object_properties_skips_falsy [OF id, of example_externals "JInt 5" "[]" "[]"
      initial_state] rd
  have "check_object_properties_loop example_externals [example_property] (JInt 5) [] initial_state
     = check_object_properties_loop example_externals [] (JInt 5) [] initial_state"
    by blast
  moreover have "validate_class_property example_externals JNull example_property [] False
     = Inl (NMOSTestException [Txt ''NcString'', Txt ''userLabel'', Txt '': '',
          Txt ''Non-nullable property set to null.''])"
    by (simp add: validate_class_property_def type_context_def validate_property_type_def
        example_property_def dict_item_def)
  ultimately show ?thesis by simp
qed

section \<open>Managers\<close>

lemmas member_eval = check_block_member_def member_descriptor_def example_externals_def
  u_validate_schema_def dict_get_def dict_item_def check_unique_roles_def check_unique_oid_def
  check_manager_def check_touchpoints_def get_property_def class_identifier_of_def
  check_object_properties_def example_class_descriptors_def initial_state_def py_in_def
  str_nat.simps Let_def

text \<open>C4. The claim: after a full walk, a manager whose owner is not the root block has
  set \<^verbatim>\<open>managers_members_root_block_error\<close>, and a second manager of the same base type
  anywhere in the tree has set \<^verbatim>\<open>managers_are_singletons_error\<close>. The second half fails on
  the code: \<^verbatim>\<open>manager_cache\<close> starts empty in every block, so two device managers in two
  different blocks are walked to the end with \<^verbatim>\<open>managers_are_singletons_error\<close> still
  false; only the root-block error is set, for the manager of the nested block.\<close>

theorem check_block_two_managers:
  "check_block example_externals two_managers_model example_class_descriptors [] initial_state
     = Inr (initial_state\<lparr>managers_members_root_block_error := True,
              oid_cache := [JInt 4, JInt 2, JInt 3]\<rparr>)
   \<and> \<not> managers_are_singletons_error (initial_state\<lparr>managers_members_root_block_error := True,
              oid_cache := [JInt 4, JInt 2, JInt 3]\<rparr>)"
  by (simp add: two_managers_model_def member_eval)

section \<open>Construction of the mirror: fuel and partial failure\<close>

text \<open>More fuel never changes what a construction returns.\<close>

lemma build_members_fuel_step:
  assumes F: "\<And>class_id oid rl s r. nc_object_factory fuel x class_id oid rl s = Some r
      \<Longrightarrow> nc_object_factory (Suc fuel) x class_id oid rl s = Some r"
  shows "build_members fuel x ms child_objects s = Some r
      \<Longrightarrow> build_members (Suc fuel) x ms child_objects s = Some r"
proof (induction ms arbitrary: child_objects s)
  case Nil
  then show ?case by simp
next
  case (Cons m rest)
  show ?case
  proof (cases "py_item m ''classId''")
    case (Inl e)
    with Cons.prems show ?thesis by simp
  next
    case c: (Inr class_id)
    show ?thesis
    proof (cases "py_item m ''oid''")
      case (Inl e)
      with Cons.prems c show ?thesis by simp
    next
      case o: (Inr oid)
      show ?thesis
      proof (cases "py_item m ''role''")
        case (Inl e)
        with Cons.prems c o show ?thesis by simp
      next
        case r: (Inr rl)
        show ?thesis
        proof (cases "nc_object_factory fuel x class_id oid rl s")
          case None
          with Cons.prems c o r show ?thesis by simp
        next
          case (Some res)
          from F [OF Some] have S: "nc_object_factory (Suc fuel) x class_id oid rl s = Some res" .
          from Cons.prems c o r Some S Cons.IH show ?thesis
            by (auto split: sum.splits option.splits prod.splits)
        qed
      qed
    qed
  qed
qed

lemma nc_object_factory_fuel_mono:
  "nc_object_factory fuel x class_id oid rl s = Some r
     \<Longrightarrow> nc_object_factory (Suc fuel) x class_id oid rl s = Some r"
proof (induction fuel arbitrary: class_id oid rl s r)
  case 0
  then show ?case by simp
next
  case (Suc fuel)
  have B: "\<And>ms child_objects s r. build_members fuel x ms child_objects s = Some r
      \<Longrightarrow> build_members (Suc fuel) x ms child_objects s = Some r"
    by (rule build_members_fuel_step) (rule Suc.IH)
  from Suc.prems show ?case
    apply (subst nc_object_factory.simps)
    apply (subst (asm) nc_object_factory.simps)
    apply (auto split: sum.splits option.splits prod.splits bool.splits if_splits dest: B)
    done
qed

lemma nc_object_factory_fuel_le:
  "fuel \<le> fuel' \<Longrightarrow> nc_object_factory fuel x class_id oid rl s = Some r
     \<Longrightarrow> nc_object_factory fuel' x class_id oid rl s = Some r"
  by (induction fuel' arbitrary: fuel) (auto simp: le_Suc_eq dest: nc_object_factory_fuel_mono)

lemma is_block_class_id_1_1: "is_block_class_id (JList [JInt 1, JInt 1]) = Inr True"
  by (simp add: is_block_class_id_def item_is_def)

lemma empty_child_fails:
  "nc_object_factory (Suc fuel) empty_block_externals (JList [JInt 1, JInt 1]) (JInt 2)
      (JStr ''empty'') s = Some (Inr (None, s))"
  by (simp add: nc_object_factory.simps is_block_class_id_1_1 get_property_def
      empty_block_externals_def example_externals_def)

text \<open>C5, as amended. For a node of the block family whose role is a string, with \<open>s2\<close>
  the state after the reads of its runtime constraints and of its member list:
  \<^item> if the member list read is falsy (\<^verbatim>\<open>None\<close> after a failed read, or an empty list), the
    construction returns no node;
  \<^item> otherwise, as soon as the members are built within the fuel, the block is returned
    with the children that the loop collected;
  \<^item> in the loop, a member whose construction returns no node is left out and the loop goes
    on with the next member; a member that is built is appended;
  \<^item> a failed read of the member list has set the error flag of
    \<^verbatim>\<open>device_model_metadata\<close>, whereas two successful reads leave the state as it was: an
    empty member list makes the construction fail with nothing recorded.\<close>

theorem nc_object_factory_block_members:
  assumes rl: "str_part rl = Inr rp"
    and blk: "is_block_class_id class_id = Inr True"
    and rc: "get_property x oid (RUNTIME_PROPERTY_CONSTRAINTS x) [rp, Txt '': ''] s
               = (runtime_constraints, s1)"
    and md: "get_property x oid (MEMBERS x) [rp, Txt '': ''] s1 = (member_descriptors, s2)"
  shows "(\<not> truthy member_descriptors \<longrightarrow>
            nc_object_factory (Suc fuel) x class_id oid rl s = Some (Inr (None, s2)))
     \<and> (\<forall>ms child_objects s3.
           truthy member_descriptors \<and> py_iter member_descriptors = Inr ms
             \<and> build_members fuel x ms [] s2 = Some (Inr (child_objects, s3)) \<longrightarrow>
           nc_object_factory (Suc fuel) x class_id oid rl s
             = Some (Inr (Some (NcBlock class_id oid rl member_descriptors runtime_constraints
                                 child_objects), s3)))
     \<and> (\<forall>m rest acc t mc mo mr t1.
           py_item m ''classId'' = Inr mc \<and> py_item m ''oid'' = Inr mo \<and> py_item m ''role'' = Inr mr \<longrightarrow>
           (nc_object_factory fuel x mc mo mr t = Some (Inr (None, t1)) \<longrightarrow>
              build_members fuel x (m # rest) acc t = build_members fuel x rest acc t1)
         \<and> (\<forall>child. nc_object_factory fuel x mc mo mr t = Some (Inr (Some child, t1)) \<longrightarrow>
              build_members fuel x (m # rest) acc t = build_members fuel x rest (acc @ [child]) t1))
     \<and> (\<forall>detail. is12_get_property x oid (MEMBERS x) = Inl detail \<longrightarrow>
           error (device_model_metadata s2))
     \<and> (\<forall>v v'. is12_get_property x oid (RUNTIME_PROPERTY_CONSTRAINTS x) = Inr v
             \<and> is12_get_property x oid (MEMBERS x) = Inr v' \<longrightarrow> s2 = s)"
proof (intro conjI allI impI)
  assume "\<not> truthy member_descriptors"
  then show "nc_object_factory (Suc fuel) x class_id oid rl s = Some (Inr (None, s2))"
    using rl blk rc md by (simp add: nc_object_factory.simps)
next
  fix ms child_objects s3
  assume "truthy member_descriptors \<and> py_iter member_descriptors = Inr ms
             \<and> build_members fuel x ms [] s2 = Some (Inr (child_objects, s3))"
  then show "nc_object_factory (Suc fuel) x class_id oid rl s
             = Some (Inr (Some (NcBlock class_id oid rl member_descriptors runtime_constraints
                                 child_objects), s3))"
    using rl blk rc md by (simp add: nc_object_factory.simps)
next
  fix m rest acc t mc mo mr t1
  assume "py_item m ''classId'' = Inr mc \<and> py_item m ''oid'' = Inr mo \<and> py_item m ''role'' = Inr mr"
    and "nc_object_factory fuel x mc mo mr t = Some (Inr (None, t1))"
  then show "build_members fuel x (m # rest) acc t = build_members fuel x rest acc t1"
    by simp
next
  fix m rest acc t mc mo mr t1 child
  assume "py_item m ''classId'' = Inr mc \<and> py_item m ''oid'' = Inr mo \<and> py_item m ''role'' = Inr mr"
    and "nc_object_factory fuel x mc mo mr t = Some (Inr (Some child, t1))"
  then show "build_members fuel x (m # rest) acc t = build_members fuel x rest (acc @ [child]) t1"
    by simp
next
  fix detail
  assume "is12_get_property x oid (MEMBERS x) = Inl detail"
  with md show "error (device_model_metadata s2)"
    by (auto simp: get_property_def)
next
  fix v v'
  assume "is12_get_property x oid (RUNTIME_PROPERTY_CONSTRAINTS x) = Inr v
             \<and> is12_get_property x oid (MEMBERS x) = Inr v'"
  with rc md show "s2 = s"
    by (auto simp: get_property_def)
qed

text \<open>The amended claim on the node whose member list cannot be read: the construction of
  the block fails and the failure is recorded.\<close>

theorem nc_object_factory_block_members_witness:
  "\<exists>s2. nc_object_factory 1 failing_block_externals (JList [JInt 1, JInt 1]) (JInt 2)
           (JStr ''broken'') initial_state = Some (Inr (None, s2))
        \<and> error (device_model_metadata s2)"
proof -
  let ?x = failing_block_externals
  have rl: "str_part (JStr ''broken'') = Inr (Txt ''broken'')" by simp
  have rc: "get_property ?x (JInt 2) (RUNTIME_PROPERTY_CONSTRAINTS ?x) [Txt ''broken'', Txt '': '']
      initial_state = (JNull, initial_state)"
    by (simp add: get_property_def failing_block_externals_def example_externals_def)
  obtain s2 where md: "get_property ?x (JInt 2) (MEMBERS ?x) [Txt ''broken'', Txt '': '']
      initial_state = (JNull, s2)"
    by (simp add: get_property_def failing_block_externals_def example_externals_def)
  have raised: "is12_get_property ?x (JInt 2) (MEMBERS ?x) = Inl (JStr ''Timeout'')"
    by (simp add: failing_block_externals_def example_externals_def)
  from nc_object_factory_block_members [OF rl is_block_class_id_1_1 rc md, of 0] raised
  have "nc_object_factory (Suc 0) ?x (JList [JInt 1, JInt 1]) (JInt 2) (JStr ''broken'')
      initial_state = Some (Inr (None, s2)) \<and> error (device_model_metadata s2)"
    by simp
  then show ?thesis by auto
qed

text \<open>C5 as stated fails: the child block with the empty member list is not built and is
  left out of the children of the root block, and the state after the construction of the
  whole tree is the initial state, in which no defect is recorded.\<close>

theorem nc_object_factory_empty_child_counterexample:
  "nc_object_factory 1 empty_block_externals (JList [JInt 1, JInt 1]) (JInt 2) (JStr ''empty'')
      initial_state = Some (Inr (None, initial_state))
   \<and> nc_object_factory 2 empty_block_externals (JList [JInt 1, JInt 1]) (JInt 1) (JStr ''root'')
      initial_state
     = Some (Inr (Some (NcBlock (JList [JInt 1, JInt 1]) (JInt 1) (JStr ''root'')
                         (JList [member_descriptor [1, 1] 2 ''empty'' 1]) JNull []),
                  initial_state))
   \<and> \<not> error (device_model_metadata initial_state)"
proof -
  have a: "nc_object_factory (Suc 0) empty_block_externals (JList [JInt 1, JInt 1]) (JInt 2)
      (JStr ''empty'') initial_state = Some (Inr (None, initial_state))"
    by (rule empty_child_fails)
  have b: "nc_object_factory (Suc (Suc 0)) empty_block_externals (JList [JInt 1, JInt 1]) (JInt 1)
      (JStr ''root'') initial_state
     = Some (Inr (Some (NcBlock (JList [JInt 1, JInt 1]) (JInt 1) (JStr ''root'')
                         (JList [member_descriptor [1, 1] 2 ''empty'' 1]) JNull []),
                  initial_state))"
    apply (subst nc_object_factory.simps)
    apply (simp add: is_block_class_id_1_1 get_property_def empty_block_externals_def
        example_externals_def member_descriptor_def dict_item_def)
    apply (simp add: nc_object_factory.simps is_block_class_id_1_1 get_property_def)
    done
  have c: "\<not> error (device_model_metadata initial_state)"
    by (simp add: initial_state_def no_metadata_def)
  from a b c show ?thesis by (simp add: numeral_2_eq_2)
qed

section \<open>Correlation of notifications\<close>

lemma check_notification_result:
  assumes "check_notification x oid ctx label n (err, m, c) = Inr (err', m', c')"
  shows "c' = (if matching x oid n then Suc c else c)"
    and "err' = (err \<or> flagged_notification x oid label n)"
    and "well_ended m \<Longrightarrow> well_ended m'"
  using assms
  by (auto simp: check_notification_def matching_def deviates_def wrong_event_def
      flagged_notification_def well_ended_def Let_def
      split: if_splits option.splits)

lemma check_notifications_result:
  assumes "check_notifications x oid ctx label ns (err, m, c) = Inr (err', m', c')"
  shows "c' = c + length (filter (matching x oid) ns)
       \<and> err' = (err \<or> list_ex (flagged_notification x oid label) ns)
       \<and> (well_ended m \<longrightarrow> well_ended m')"
  using assms
proof (induction ns arbitrary: err m c)
  case Nil
  then show ?case by simp
next
  case (Cons n ns)
  from Cons.prems obtain err1 m1 c1 where
    step: "check_notification x oid ctx label n (err, m, c) = Inr (err1, m1, c1)"
    and rest: "check_notifications x oid ctx label ns (err1, m1, c1) = Inr (err', m', c')"
    by (auto split: sum.splits)
  from check_notification_result [OF step] Cons.IH [OF rest]
  show ?case by auto
qed

lemma probe_oid_result:
  assumes "probe_oid x oid (err, m) = Inr (err', m', c')"
  shows "c' = matching_count x oid \<and> err' = (err \<or> flagged x oid)
       \<and> (well_ended m \<longrightarrow> well_ended m')"
proof -
  from assms obtain old where old: "is12_get_property x oid (USER_LABEL x) = Inr old"
    by (auto simp: probe_oid_def Let_def split: sum.splits)
  let ?ctx = "[Txt ''oid: '', StrOf oid, Txt '', '']"
  from assms old obtain acc where
    a1: "probe_label x oid ?ctx (JStr (''NMOS Testing Tool '' @ py_str x oid)) 0 (err, m, 0) = Inr acc"
    and a2: "probe_label x oid ?ctx old 1 acc = Inr (err', m', c')"
    by (auto simp: probe_oid_def Let_def split: sum.splits)
  obtain err1 m1 c1 where acc: "acc = (err1, m1, c1)" by (cases acc)
  from a1 acc obtain ns0 where
    s0: "is12_set_property x oid (USER_LABEL x) (JStr (''NMOS Testing Tool '' @ py_str x oid)) 0
           = Inr ns0"
    and n0: "check_notifications x oid ?ctx (JStr (''NMOS Testing Tool '' @ py_str x oid)) ns0
           (err, m, 0) = Inr (err1, m1, c1)"
    by (auto simp: probe_label_def split: sum.splits)
  from a2 acc obtain ns1 where
    s1: "is12_set_property x oid (USER_LABEL x) old 1 = Inr ns1"
    and n1: "check_notifications x oid ?ctx old ns1 (err1, m1, c1) = Inr (err', m', c')"
    by (auto simp: probe_label_def split: sum.splits)
  have l0: "logged x oid 0 = ns0" and w0: "written_label x oid 0 = JStr (''NMOS Testing Tool '' @ py_str x oid)"
    using s0 by (simp_all add: logged_def written_label_def)
  have w1: "written_label x oid (Suc 0) = old" using old by (simp add: written_label_def)
  have l1: "logged x oid (Suc 0) = ns1" using s1 old by (simp add: logged_def written_label_def)
  from check_notifications_result [OF n0]
  have r0: "c1 = length (filter (matching x oid) ns0)"
    "err1 = (err \<or> list_ex (flagged_notification x oid (written_label x oid 0)) ns0)"
    "well_ended m \<longrightarrow> well_ended m1"
    by (simp_all add: w0)
  from check_notifications_result [OF n1]
  have r1: "c' = c1 + length (filter (matching x oid) ns1)"
    "err' = (err1 \<or> list_ex (flagged_notification x oid old) ns1)"
    "well_ended m1 \<longrightarrow> well_ended m'"
    by simp_all
  show ?thesis
    unfolding matching_count_def flagged_def One_nat_def l0 l1 w1
    using r0 r1 by blast
qed

lemma probe_oids_result:
  assumes "probe_oids x oids (err, m) counts = Inr (err', m', counts')"
  shows "counts' = counts @ map (\<lambda>k. (k, matching_count x k)) oids
       \<and> err' = (err \<or> list_ex (flagged x) oids)
       \<and> (well_ended m \<longrightarrow> well_ended m')"
  using assms
proof (induction oids arbitrary: err m counts)
  case Nil
  then show ?case by simp
next
  case (Cons k ks)
  from Cons.prems obtain err1 m1 c1 where
    step: "probe_oid x k (err, m) = Inr (err1, m1, c1)"
    and rest: "probe_oids x ks (err1, m1) (counts @ [(k, c1)]) = Inr (err', m', counts')"
    by (auto split: sum.splits)
  from probe_oid_result [OF step] Cons.IH [OF rest]
  show ?case by auto
qed

lemma fromkeys_keeps: "fromkeys ks keys = Inr oids \<Longrightarrow> set keys \<subseteq> set oids"
proof (induction ks arbitrary: keys)
  case Nil
  then show ?case by simp
next
  case (Cons k ks)
  from Cons.prems
  have "fromkeys ks keys = Inr oids \<or> fromkeys ks (keys @ [k]) = Inr oids"
    by (auto split: sum.splits if_splits)
  then show ?case
    using Cons.IH [of keys] Cons.IH [of "keys @ [k]"] by auto
qed

lemma fromkeys_first: "fromkeys (k # ks) [] = Inr oids \<Longrightarrow> k \<in> set oids"
  by (auto split: sum.splits dest: fromkeys_keeps)

lemma py_sorted_set: "py_sorted xs = Inr ys \<Longrightarrow> set ys = set xs"
  by (auto simp: py_sorted_def split: if_splits)

lemma counts_all_two:
  "list_all (\<lambda>iv. snd iv = 2) (map (\<lambda>k. (k, matching_count x k)) oids)
     = (\<forall>k\<in>set oids. matching_count x k = 2)"
  by (simp add: list_all_iff)

lemma counts_any_two:
  "list_ex (\<lambda>iv. snd iv = 2) (map (\<lambda>k. (k, matching_count x k)) oids)
     = (\<exists>k\<in>set oids. matching_count x k = 2)"
  by (simp add: list_ex_iff)

lemma counts_offending:
  "map fst (filter (\<lambda>iv. snd iv \<noteq> 2) (map (\<lambda>k. (k, matching_count x k)) oids))
     = filter (\<lambda>k. matching_count x k \<noteq> 2) oids"
  by (induction oids) auto

lemma well_ended_not_offending:
  "well_ended m \<Longrightarrow> m \<noteq> message @ [Txt t, StrOf v]"
  by (auto simp: well_ended_def)

lemma verdict_result:
  assumes v: "verdict err m (map (\<lambda>k. (k, matching_count x k)) oids) = Inr res"
    and ne: "oids \<noteq> []" and we: "well_ended m"
  shows "((\<exists>message offending. res = FAIL (message
              @ [Txt ''Notifications not received for Oids '', StrOf (JList offending)]))
            = (\<exists>k\<in>set oids. matching_count x k \<noteq> 2))
       \<and> (\<forall>message offending. res = FAIL (message
              @ [Txt ''Notifications not received for Oids '', StrOf (JList offending)])
            \<longrightarrow> set offending = {k \<in> set oids. matching_count x k \<noteq> 2})
       \<and> (err \<longrightarrow> (\<exists>message. res = FAIL message))
       \<and> ((res = PASS) = ((\<forall>k\<in>set oids. matching_count x k = 2) \<and> \<not> err))"
proof (cases "\<forall>k\<in>set oids. matching_count x k = 2")
  case True
  with ne have any: "\<exists>k\<in>set oids. matching_count x k = 2" by (cases oids) auto
  from v True any ne have res: "res = (if err then FAIL m else PASS)"
    by (auto simp: verdict_def counts_all_two counts_any_two split: if_splits)
  show ?thesis
    using True res well_ended_not_offending [OF we] by auto
next
  case False
  with v obtain offending where
    srt: "py_sorted (filter (\<lambda>k. matching_count x k \<noteq> 2) oids) = Inr offending"
    and res: "res = FAIL (m @ [Txt ''Notifications not received for Oids '',
                               StrOf (JList offending)])"
    by (auto simp: verdict_def counts_all_two counts_offending split: sum.splits)
  from py_sorted_set [OF srt]
  have "set offending = {k \<in> set oids. matching_count x k \<noteq> 2}" by auto
  with False res show ?thesis by auto
qed

text \<open>C6. Let \<open>oids\<close> be the monitored objects, the root block and the objects of the
  device model, and let \<open>test_32\<close> run to its end with the result \<open>res\<close>. Then
  \<^item> the result is a failure whose message ends with "Notifications not received for Oids"
    and a list of oids exactly when some monitored object has a number of matching
    notifications, over its two writes, other than 2;
  \<^item> the oids of that list are exactly the monitored objects with such a number;
  \<^item> if, for some monitored object, a matching notification deviates from the label
    written (change type, value or sequence item index), or a notification of the object
    has the wrong event id, the result is a failure;
  \<^item> the test passes exactly when every monitored object has 2 matching notifications and
    none of them is flagged in that way.\<close>

theorem test_32_verdict:
  assumes keys: "fromkeys ([ROOT_BLOCK_OID x] @ object_oids) [] = Inr oids"
    and run: "test_32 x object_oids = Inr res"
  shows "((\<exists>message offending. res = FAIL (message
              @ [Txt ''Notifications not received for Oids '', StrOf (JList offending)]))
            = (\<exists>k\<in>set oids. matching_count x k \<noteq> 2))
       \<and> (\<forall>message offending. res = FAIL (message
              @ [Txt ''Notifications not received for Oids '', StrOf (JList offending)])
            \<longrightarrow> set offending = {k \<in> set oids. matching_count x k \<noteq> 2})
       \<and> ((\<exists>k\<in>set oids. flagged x k) \<longrightarrow> (\<exists>message. res = FAIL message))
       \<and> ((res = PASS) = (\<forall>k\<in>set oids. matching_count x k = 2 \<and> \<not> flagged x k))"
proof -
  from keys have ne: "oids \<noteq> []" using fromkeys_first [of "ROOT_BLOCK_OID x" object_oids oids]
    by auto
  from run keys obtain err m counts where
    p: "probe_oids x oids (False, []) [] = Inr (err, m, counts)"
    and v: "verdict err m counts = Inr res"
    by (auto simp: test_32_def split: sum.splits option.splits)
  from probe_oids_result [OF p]
  have c: "counts = map (\<lambda>k. (k, matching_count x k)) oids"
    and e: "err = (\<exists>k\<in>set oids. flagged x k)"
    and we: "well_ended m"
    by (simp_all add: well_ended_def list_ex_iff)
  from verdict_result [OF v [unfolded c] ne we] e
  show ?thesis by blast
qed

text \<open>On the node that notifies every write once and correctly, the test passes, and the
  root block has two matching notifications, none flagged.\<close>

theorem test_32_verdict_witness:
  "test_32 compliant_externals [] = Inr PASS
   \<and> matching_count compliant_externals (JInt 1) = 2
   \<and> \<not> flagged compliant_externals (JInt 1)"
proof -
  have keys: "fromkeys ([ROOT_BLOCK_OID compliant_externals] @ []) [] = Inr [JInt 1]"
    by (simp add: compliant_externals_def example_externals_def)
  have run: "test_32 compliant_externals [] = Inr PASS"
    by (simp add: test_32_def compliant_externals_def example_externals_def probe_oid_def
        probe_label_def check_notification_def verdict_def)
  from test_32_verdict [OF keys run] have "matching_count compliant_externals (JInt 1) = 2
      \<and> \<not> flagged compliant_externals (JInt 1)"
    by simp
  with run show ?thesis by simp
qed

section \<open>Search by role path: when the test passes\<close>

lemma validate_queried_members_single:
  "(validate_queried_members x [m] ctx = Inr ()) = valid_member_descriptor x m"
  by (auto simp: valid_member_descriptor_def dict_item_def u_validate_schema_def
      split: option.splits schema_outcome.splits)

lemma check_role_path_single:
  assumes "is12_find_members_by_path x (oid_of block) role_path = Inr (JList [m])"
  shows "(check_role_path x block ctx role_path = Inr ()) = path_result_ok x block role_path"
proof (cases "validate_queried_members x [m] ctx")
  case (Inl e)
  with validate_queried_members_single [of x m ctx] have "\<not> valid_member_descriptor x m" by simp
  with Inl assms show ?thesis by (simp add: check_role_path_def path_result_ok_def)
next
  case (Inr u)
  with validate_queried_members_single [of x m ctx] have v: "valid_member_descriptor x m" by simp
  show ?thesis
  proof (cases "py_item m ''oid''")
    case (Inl e)
    with Inr assms v show ?thesis
      by (simp add: check_role_path_def path_result_ok_def split: option.splits)
  next
    case o: (Inr oid)
    with Inr assms v show ?thesis
      by (simp add: check_role_path_def path_result_ok_def py_in_def split: option.splits)
  qed
qed

lemma check_role_path_ok:
  "(check_role_path x block ctx role_path = Inr ()) = path_result_ok x block role_path"
proof (cases "is12_find_members_by_path x (oid_of block) role_path")
  case (Inl detail)
  then show ?thesis by (simp add: check_role_path_def path_result_ok_def)
next
  case (Inr queried)
  show ?thesis
  proof (cases queried)
    case (JList qs)
    show ?thesis
    proof (cases qs)
      case Nil
      with Inr JList show ?thesis
        by (simp add: check_role_path_def path_result_ok_def split: sum.splits)
    next
      case (Cons m rest)
      show ?thesis
      proof (cases rest)
        case Nil
        with Inr JList Cons show ?thesis
          by (simp add: check_role_path_single)
      next
        case (Cons m' rest')
        with Inr JList \<open>qs = m # rest\<close> show ?thesis
          by (simp add: check_role_path_def path_result_ok_def split: sum.splits)
      qed
    qed
  qed (simp_all add: Inr check_role_path_def path_result_ok_def)
qed

lemma check_role_paths_ok:
  "(check_role_paths x block ctx role_paths = Inr ())
     = (\<forall>p\<in>set role_paths. path_result_ok x block p)"
proof (induction role_paths)
  case Nil
  then show ?case by simp
next
  case (Cons p ps)
  show ?case
    using check_role_path_ok [of x block ctx p] Cons.IH
    by (cases "check_role_path x block ctx p") auto
qed

lemma blocks_of_not_block: "\<not> is_NcBlock c \<Longrightarrow> blocks_of c = []"
  by (cases c) simp_all

lemma is_str_part: "is_str v \<Longrightarrow> \<exists>s. str_part v = Inr (Txt s)"
  by (cases v) simp_all

lemma sum_unit_cases: "(r :: pyerror + unit) = Inr () \<or> (\<exists>e. r = Inl e)"
  by (cases r) auto

lemma find_member_by_path_blocks:
  "(\<forall>b\<in>set (blocks_of block). is_str (role b)) \<Longrightarrow> is_NcBlock block \<Longrightarrow>
     (do_find_member_by_path_test x block ctx = Inr ())
       = (\<forall>b\<in>set (blocks_of block). \<forall>p\<in>set (get_role_paths x b). path_result_ok x b p)"
  "(\<forall>b\<in>set (blocks_of_children children). is_str (role b)) \<Longrightarrow> is_str rl \<Longrightarrow>
     (find_member_by_path_children x rl children ctx = Inr ())
       = (\<forall>b\<in>set (blocks_of_children children). \<forall>p\<in>set (get_role_paths x b).
            path_result_ok x b p)"
proof (induction x block ctx and x rl children ctx
    rule: do_find_member_by_path_test_find_member_by_path_children.induct)
  case (1 x class_id oid rl member_descriptors runtime_constraints child_objects ctx)
  let ?B = "NcBlock class_id oid rl member_descriptors runtime_constraints child_objects"
  from "1.prems" have str: "is_str rl" by simp
  then obtain s where rp: "str_part rl = Inr (Txt s)" using is_str_part by blast
  from "1.prems" have "\<forall>b\<in>set (blocks_of_children child_objects). is_str (role b)" by simp
  from "1.IH" [OF this str]
  have ch: "(find_member_by_path_children x rl child_objects ctx = Inr ())
       = (\<forall>b\<in>set (blocks_of_children child_objects). \<forall>p\<in>set (get_role_paths x b).
            path_result_ok x b p)" .
  have own: "(case get_role_paths x ?B of [] \<Rightarrow> Inr ()
          | role_paths \<Rightarrow> (case str_part rl of Inl e \<Rightarrow> Inl e
              | Inr rp \<Rightarrow> check_role_paths x ?B (ctx @ [rp]) role_paths)) = Inr ()
       \<longleftrightarrow> (\<forall>p\<in>set (get_role_paths x ?B). path_result_ok x ?B p)"
    using check_role_paths_ok [of x ?B "ctx @ [Txt s]" "get_role_paths x ?B"]
    by (cases "get_role_paths x ?B") (simp_all add: rp)
  show ?case
    using sum_unit_cases [of "find_member_by_path_children x rl child_objects ctx"] ch own
    by auto
next
  case (2 x class_id oid rl runtime_constraints ctx)
  then show ?case by simp
next
  case (3 x class_id oid rl cds dds runtime_constraints ctx)
  then show ?case by simp
next
  case (4 x rl ctx)
  then show ?case by simp
next
  case (5 x rl child_object rest ctx)
  from "5.prems" obtain s where rp: "str_part rl = Inr (Txt s)" using is_str_part by blast
  show ?case
  proof (cases "is_NcBlock child_object")
    case False
    from "5.prems" have "\<forall>b\<in>set (blocks_of_children rest). is_str (role b)" by simp
    from "5.IH"(3) [OF False this "5.prems"(2)] False show ?thesis
      by (simp add: blocks_of_not_block)
  next
    case True
    from "5.prems" have a: "\<forall>b\<in>set (blocks_of child_object). is_str (role b)"
      and b: "\<forall>b\<in>set (blocks_of_children rest). is_str (role b)" by simp_all
    from "5.IH"(1) [OF True rp a True]
    have c1: "(do_find_member_by_path_test x child_object (ctx @ [Txt s, Txt '': '']) = Inr ())
       = (\<forall>b\<in>set (blocks_of child_object). \<forall>p\<in>set (get_role_paths x b). path_result_ok x b p)" .
    show ?thesis
    proof (cases "do_find_member_by_path_test x child_object (ctx @ [Txt s, Txt '': ''])")
      case (Inl e)
      with c1 True rp show ?thesis by auto
    next
      case (Inr u)
      from "5.IH"(2) [OF True rp Inr b "5.prems"(2)] c1 Inr True rp show ?thesis
        by auto
    qed
  qed
qed

text \<open>C7. In a mirror whose blocks have strings as roles, as every mirror built by
  \<open>nc_object_factory\<close> has, \<open>do_find_member_by_path_test\<close> returns normally exactly when
  it is given a block and, for every block of the mirror and every role path enumerated
  from that block, the result of the remote query is acceptable; an acceptable result is a
  list of exactly one member descriptor, valid against the schema, whose oid is the oid of
  the object that the mirror resolves the path to. Any other result (not a list, a list
  of another length, another oid, a path the mirror does not resolve) raises.\<close>

theorem do_find_member_by_path_test_passes_iff:
  assumes "\<forall>b\<in>set (blocks_of block). is_str (role b)"
  shows "((do_find_member_by_path_test x block ctx = Inr ())
           = (is_NcBlock block
              \<and> (\<forall>b\<in>set (blocks_of block). \<forall>p\<in>set (get_role_paths x b). path_result_ok x b p)))
     \<and> (\<forall>b p. path_result_ok x b p \<longrightarrow>
           (\<exists>queried_member member oid.
               is12_find_members_by_path x (oid_of b) p = Inr (JList [queried_member])
             \<and> valid_member_descriptor x queried_member
             \<and> find_members_by_path x b p = Some member
             \<and> py_item queried_member ''oid'' = Inr oid
             \<and> py_eq (oid_of member) oid))"
proof
  show "(do_find_member_by_path_test x block ctx = Inr ())
           = (is_NcBlock block
              \<and> (\<forall>b\<in>set (blocks_of block). \<forall>p\<in>set (get_role_paths x b). path_result_ok x b p))"
  proof (cases "is_NcBlock block")
    case True
    with find_member_by_path_blocks(1) [OF assms True] show ?thesis by simp
  next
    case False
    then show ?thesis by (cases block) simp_all
  qed
  show "\<forall>b p. path_result_ok x b p \<longrightarrow>
           (\<exists>queried_member member oid.
               is12_find_members_by_path x (oid_of b) p = Inr (JList [queried_member])
             \<and> valid_member_descriptor x queried_member
             \<and> find_members_by_path x b p = Some member
             \<and> py_item queried_member ''oid'' = Inr oid
             \<and> py_eq (oid_of member) oid)"
  proof (intro allI impI)
    fix b p
    assume ok: "path_result_ok x b p"
    then obtain m where q: "is12_find_members_by_path x (oid_of b) p = Inr (JList [m])"
      by (auto simp: path_result_ok_def split: sum.splits json.splits list.splits)
    from ok q have v: "valid_member_descriptor x m"
      and r: "(case find_members_by_path x b p of
                 Some member \<Rightarrow>
                   (case py_item m ''oid'' of Inr oid \<Rightarrow> py_eq (oid_of member) oid
                    | Inl e \<Rightarrow> False)
               | None \<Rightarrow> False)"
      by (simp_all add: path_result_ok_def)
    from r obtain member where f: "find_members_by_path x b p = Some member"
      by (cases "find_members_by_path x b p") auto
    from r f obtain oid where o: "py_item m ''oid'' = Inr oid" and e: "py_eq (oid_of member) oid"
      by (cases "py_item m ''oid''") auto
    from q v f o e
    show "\<exists>queried_member member oid.
               is12_find_members_by_path x (oid_of b) p = Inr (JList [queried_member])
             \<and> valid_member_descriptor x queried_member
             \<and> find_members_by_path x b p = Some member
             \<and> py_item queried_member ''oid'' = Inr oid
             \<and> py_eq (oid_of member) oid"
      by blast
  qed
qed

text \<open>The test passes on the mirror with one manager, where the node answers the only role
  path with the descriptor of that manager.\<close>

theorem do_find_member_by_path_test_passes_iff_witness:
  "do_find_member_by_path_test path_externals one_manager_model [] = Inr ()"
proof -
  have blocks: "blocks_of one_manager_model = [one_manager_model]"
    by (simp add: one_manager_model_def)
  have roles: "\<forall>b\<in>set (blocks_of one_manager_model). is_str (role b)"
    by (simp add: one_manager_model_def)
  have paths: "get_role_paths path_externals one_manager_model = [JList [JStr ''DeviceManager'']]"
    by (simp add: path_externals_def one_manager_model_def)
  have ok: "path_result_ok path_externals one_manager_model (JList [JStr ''DeviceManager''])"
    by (simp add: path_result_ok_def valid_member_descriptor_def path_externals_def
        example_externals_def one_manager_model_def member_descriptor_def dict_item_def)
  have blk: "is_NcBlock one_manager_model" by (simp add: one_manager_model_def)
  from do_find_member_by_path_test_passes_iff [OF roles, of path_externals "[]"] blocks paths ok blk
  show ?thesis by simp
qed

section \<open>Comparison of a descriptor with its reference\<close>

text \<open>The first failing element decides the outcome of a loop that raises.\<close>

lemma first_error_ok: "(first_error f ks = Inr ()) = (\<forall>k\<in>set ks. f k = Inr ())"
  by (induction ks) (auto split: sum.splits)

lemma first_error_raised: "first_error f ks = Inl e \<Longrightarrow> \<exists>k\<in>set ks. f k = Inl e"
  by (induction ks) (auto split: sum.splits)

lemma set_iteration_order: "set (iteration_order rank keys) = set keys"
  by (simp add: iteration_order_def)

lemma key_diff_symmetric:
  "(A \<union> B) - (A \<inter> B) = (A - B) \<union> (B - A)"
  by auto

lemma key_diff_empty: "((A \<union> B) - (A \<inter> B) = {}) = (A = B)"
  by auto

lemma hash_key_error: "hash_key v = Inl e \<Longrightarrow> e = TypeError"
  by (cases v) auto

lemma py_item_error: "py_item v k = Inl e \<Longrightarrow> e = TypeError \<or> e = KeyError"
  by (cases v) (auto simp: dict_item_def split: option.splits)

lemma item_key_error: "item_key item = Inl e \<Longrightarrow> e = TypeError \<or> e = KeyError"
  by (auto simp: item_key_def split: sum.splits dest: hash_key_error py_item_error)

lemma name_dict_error: "name_dict items d = Inl e \<Longrightarrow> e = TypeError \<or> e = KeyError"
  by (induction items arbitrary: d) (auto split: sum.splits dest: item_key_error)

lemma py_iter_error: "py_iter v = Inl e \<Longrightarrow> e = TypeError"
  by (cases v) auto

lemma validate_descriptor_prefix:
  "validate_descriptor rank reference descriptor ctx = Inl (NMOSTestException m)
     \<Longrightarrow> \<exists>suffix. m = ctx @ suffix \<and> suffix \<noteq> []"
  "validate_key rank ref desc ctx key = Inl (NMOSTestException m)
     \<Longrightarrow> \<exists>suffix. m = ctx @ suffix \<and> length suffix \<ge> 2 \<and> (\<forall>keys. suffix ! 1 \<noteq> StrOfKeys keys)"
proof (induction rank reference descriptor ctx and rank ref desc ctx key
    arbitrary: m and m rule: validate_descriptor_validate_key.induct)
  case (1 rank reference descriptor ctx)
  show ?case
  proof (cases "set (map fst reference) = set (map fst descriptor)")
    case False
    with "1.prems" show ?thesis
      by (auto simp: validate_descriptor.simps Let_def key_diff_empty split: if_splits)
  next
    case True
    with "1.prems" have "first_error (validate_key rank reference descriptor ctx)
        (iteration_order rank (map fst reference)) = Inl (NMOSTestException m)"
      by (simp add: validate_descriptor.simps Let_def key_diff_empty)
    from first_error_raised [OF this] obtain k where
      k: "k \<in> set (iteration_order rank (map fst reference))"
      and e: "validate_key rank reference descriptor ctx k = Inl (NMOSTestException m)"
      by blast
    from "1.IH" [OF refl refl refl _ k e] True
    obtain suffix where "m = ctx @ suffix" "length suffix \<ge> 2"
      by (auto simp: key_diff_empty)
    then show ?thesis by (intro exI [of _ suffix]) auto
  qed
next
  case (3 rank reference descriptor ctx)
  show ?case
  proof (cases "reference \<noteq> [] \<and> is_dict (hd reference)")
    case False
    with "3.prems" show ?thesis
      by (auto simp: validate_descriptor.simps split: if_splits)
  next
    case True
    with "3.prems" obtain references items descriptors where
      a: "name_dict reference [] = Inr references" and b: "py_iter descriptor = Inr items"
      and c: "name_dict items [] = Inr descriptors"
      and d: "validate_descriptor rank (JDict references) (JDict descriptors) ctx
                = Inl (NMOSTestException m)"
      by (auto simp: validate_descriptor.simps split: sum.splits
          dest: name_dict_error py_iter_error)
    from "3.IH" [OF True a b c d] show ?thesis .
  qed
next
  case (5 rank reference descriptor ctx key)
  from "5.prems" obtain rv where rv: "map_of reference key = Some rv"
    by (auto simp: validate_key.simps split: option.splits)
  from "5.prems" rv have n1: "\<not> (key = KStr ''description'' \<and> \<not> is_dict rv)"
    by (auto simp: validate_key.simps split: if_splits)
  from "5.prems" rv n1 obtain dv where dv: "map_of descriptor key = Some dv"
    by (auto simp: validate_key.simps split: option.splits if_splits)
  show ?case
  proof (cases "key = KStr ''classId'' \<and> is_list rv")
    case True
    with "5.prems" rv n1 dv have "m = ctx @ [Txt ''Unexpected ClassId. Expected: '', StrOf rv,
                                    Txt '' actual: '', StrOf dv]"
      by (auto simp: validate_key.simps split: if_splits)
    then show ?thesis by simp
  next
    case False
    with "5.prems" rv n1 dv obtain k where k: "key = KStr k"
      and r: "validate_descriptor rank rv dv (ctx @ [Txt k, Txt ''->'']) = Inl (NMOSTestException m)"
      by (auto simp: validate_key.simps split: pykey.splits if_splits)
    from "5.IH" [OF rv _ dv _ k r] n1 False
    obtain suffix where "m = (ctx @ [Txt k, Txt ''->'']) @ suffix" by auto
    then have "m = ctx @ ([Txt k, Txt ''->''] @ suffix)" by simp
    then show ?thesis by (intro exI [of _ "[Txt k, Txt ''->''] @ suffix"]) simp
  qed
qed (auto simp: validate_descriptor.simps split: if_splits)

lemma first_error_first:
  "first_error f ks = Inl e \<Longrightarrow>
     \<exists>before key after. ks = before @ key # after \<and> f key = Inl e
        \<and> (\<forall>k\<in>set before. f k = Inr ())"
proof (induction ks)
  case Nil
  then show ?case by simp
next
  case (Cons k ks)
  show ?case
  proof (cases "f k")
    case (Inl e')
    with Cons.prems have "f k = Inl e" by simp
    then show ?thesis by (intro exI [of _ "[]"] exI [of _ k] exI [of _ ks]) simp
  next
    case (Inr u)
    with Cons.prems have "first_error f ks = Inl e" by simp
    from Cons.IH [OF this] obtain before key after where
      "ks = before @ key # after" "f key = Inl e" "\<forall>k\<in>set before. f k = Inr ()"
      by blast
    with Inr show ?thesis
      by (intro exI [of _ "k # before"] exI [of _ key] exI [of _ after]) simp
  qed
qed

text \<open>
  C3, as amended. For a reference and a live descriptor that are both
  mappings, \<^const>\<open>validate_descriptor\<close> raises the key error of this level exactly when
  the two key sets differ; the error reports the symmetric difference of the key sets and
  is labelled \<^verbatim>\<open>Missing keys\<close> when that difference lies within the reference's keys
  and \<^verbatim>\<open>Additional keys\<close> otherwise. When the key sets are equal the keys of the
  reference are visited one by one: the comparison succeeds exactly when every key
  succeeds, and an error is the error of the first failing key in the iteration order,
  all keys before it having succeeded. For a key the value of the reference is compared
  recursively with the live value, the context extended by the key, with two exceptions:
  a value under \<^verbatim>\<open>description\<close> that is not a mapping is not compared at all, and a
  list under \<^verbatim>\<open>classId\<close> is compared by equality.
\<close>

theorem validate_descriptor_key_check:
  "let reference_keys = set (map fst reference); live_keys = set (map fst live);
       key_diff = (reference_keys - live_keys) \<union> (live_keys - reference_keys);
       outcome = validate_descriptor rank (JDict reference) (JDict live) ctx
   in ((\<exists>label keys. outcome = Inl (NMOSTestException (ctx @ [Txt label, StrOfKeys keys])))
         = (reference_keys \<noteq> live_keys))
    \<and> (reference_keys \<noteq> live_keys \<longrightarrow>
         outcome = Inl (NMOSTestException (ctx @
           [Txt (if key_diff \<subseteq> reference_keys then ''Missing keys '' else ''Additional keys ''),
            StrOfKeys key_diff])))
    \<and> (reference_keys = live_keys \<longrightarrow>
         ((outcome = Inr ())
            = (\<forall>key\<in>reference_keys. validate_key rank reference live ctx key = Inr ()))
       \<and> (\<forall>e. outcome = Inl e \<longrightarrow>
            (\<exists>before key after.
               iteration_order rank (map fst reference) = before @ key # after
             \<and> validate_key rank reference live ctx key = Inl e
             \<and> (\<forall>k\<in>set before. validate_key rank reference live ctx k = Inr ()))))
    \<and> (\<forall>k rv dv. map_of reference (KStr k) = Some rv \<and> map_of live (KStr k) = Some dv \<longrightarrow>
         validate_key rank reference live ctx (KStr k) =
           (if k = ''description'' \<and> \<not> is_dict rv then Inr ()
            else if k = ''classId'' \<and> is_list rv
              then (if py_eq rv dv then Inr ()
                    else Inl (NMOSTestException (ctx @ [Txt ''Unexpected ClassId. Expected: '',
                           StrOf rv, Txt '' actual: '', StrOf dv])))
              else validate_descriptor rank rv dv (ctx @ [Txt k, Txt ''->''])))"
proof -
  define reference_keys where "reference_keys = set (map fst reference)"
  define live_keys where "live_keys = set (map fst live)"
  define key_diff where "key_diff = (reference_keys - live_keys) \<union> (live_keys - reference_keys)"
  define outcome where "outcome = validate_descriptor rank (JDict reference) (JDict live) ctx"
  have code_diff: "(reference_keys \<union> live_keys) - (reference_keys \<inter> live_keys) = key_diff"
    unfolding key_diff_def by (rule key_diff_symmetric)
  have differ: "outcome = Inl (NMOSTestException (ctx @
           [Txt (if key_diff \<subseteq> reference_keys then ''Missing keys '' else ''Additional keys ''),
            StrOfKeys key_diff]))" if "reference_keys \<noteq> live_keys"
  proof -
    from that have "key_diff \<noteq> {}" unfolding key_diff_def by auto
    then show ?thesis
      unfolding outcome_def validate_descriptor.simps Let_def
      using code_diff unfolding reference_keys_def live_keys_def by simp
  qed
  have same: "outcome = first_error (validate_key rank reference live ctx)
                 (iteration_order rank (map fst reference))" if "reference_keys = live_keys"
  proof -
    from that have "key_diff = {}" unfolding key_diff_def by auto
    then show ?thesis
      unfolding outcome_def validate_descriptor.simps Let_def
      using code_diff unfolding reference_keys_def live_keys_def by simp
  qed
  have no_key_error: "outcome \<noteq> Inl (NMOSTestException (ctx @ [Txt label, StrOfKeys keys]))"
    if eq: "reference_keys = live_keys" for label keys
  proof
    assume "outcome = Inl (NMOSTestException (ctx @ [Txt label, StrOfKeys keys]))"
    with same [OF eq] have "first_error (validate_key rank reference live ctx)
        (iteration_order rank (map fst reference))
          = Inl (NMOSTestException (ctx @ [Txt label, StrOfKeys keys]))" by simp
    from first_error_raised [OF this] obtain key where
      "validate_key rank reference live ctx key
         = Inl (NMOSTestException (ctx @ [Txt label, StrOfKeys keys]))" by blast
    from validate_descriptor_prefix(2) [OF this] show False by auto
  qed
  have c1: "(\<exists>label keys. outcome = Inl (NMOSTestException (ctx @ [Txt label, StrOfKeys keys])))
         = (reference_keys \<noteq> live_keys)"
    using differ no_key_error by blast
  have c3: "(outcome = Inr ())
            = (\<forall>key\<in>reference_keys. validate_key rank reference live ctx key = Inr ())"
    if "reference_keys = live_keys"
    using same [OF that] by (simp add: first_error_ok set_iteration_order reference_keys_def)
  have c4: "\<exists>before key after.
               iteration_order rank (map fst reference) = before @ key # after
             \<and> validate_key rank reference live ctx key = Inl e
             \<and> (\<forall>k\<in>set before. validate_key rank reference live ctx k = Inr ())"
    if "reference_keys = live_keys" "outcome = Inl e" for e
    using same [OF that(1)] that(2) first_error_first by metis
  have c5: "validate_key rank reference live ctx (KStr k) =
           (if k = ''description'' \<and> \<not> is_dict rv then Inr ()
            else if k = ''classId'' \<and> is_list rv
              then (if py_eq rv dv then Inr ()
                    else Inl (NMOSTestException (ctx @ [Txt ''Unexpected ClassId. Expected: '',
                           StrOf rv, Txt '' actual: '', StrOf dv])))
              else validate_descriptor rank rv dv (ctx @ [Txt k, Txt ''->'']))"
    if "map_of reference (KStr k) = Some rv" "map_of live (KStr k) = Some dv" for k rv dv
    using that by (auto simp: validate_key.simps)
  from c1 differ c3 c4 c5 show ?thesis
    unfolding Let_def reference_keys_def [symmetric] live_keys_def [symmetric]
      key_diff_def [symmetric] outcome_def [symmetric]
    by blast
qed

text \<open>The theorem at a live descriptor that lacks a key, and at one with the same keys.\<close>

theorem validate_descriptor_key_check_witness:
  "set (map fst description_reference) \<noteq> set (map fst missing_key_live)
   \<and> validate_descriptor (\<lambda>k. 0) (JDict description_reference) (JDict missing_key_live) []
       = Inl (NMOSTestException [Txt ''Missing keys '', StrOfKeys {KStr ''name''}])
   \<and> set (map fst description_reference) = set (map fst description_live)
   \<and> map_of description_reference (KStr ''name'') = Some (JStr ''enabled'')
   \<and> map_of description_live (KStr ''name'') = Some (JStr ''enabled'')
   \<and> validate_key (\<lambda>k. 0) description_reference description_live [] (KStr ''name'')
       = validate_descriptor (\<lambda>k. 0) (JStr ''enabled'') (JStr ''enabled'') [Txt ''name'', Txt ''->'']
   \<and> validate_descriptor (\<lambda>k. 0) (JDict description_reference) (JDict description_live) []
       = Inr ()"
proof -
  note examples = description_reference_def missing_key_live_def description_live_def
  have differ: "set (map fst description_reference) \<noteq> set (map fst missing_key_live)"
    by (auto simp: examples)
  have diff: "(set (map fst description_reference) - set (map fst missing_key_live))
                \<union> (set (map fst missing_key_live) - set (map fst description_reference))
              = {KStr ''name''}"
    by (auto simp: examples)
  have missing: "validate_descriptor (\<lambda>k. 0) (JDict description_reference)
        (JDict missing_key_live) []
       = Inl (NMOSTestException [Txt ''Missing keys '', StrOfKeys {KStr ''name''}])"
    using validate_descriptor_key_check
      [of description_reference missing_key_live "\<lambda>k. 0" "[]"] differ
    unfolding Let_def diff by (simp add: examples)
  have same: "set (map fst description_reference) = set (map fst description_live)"
    by (simp add: examples)
  have name_r: "map_of description_reference (KStr ''name'') = Some (JStr ''enabled'')"
    and name_l: "map_of description_live (KStr ''name'') = Some (JStr ''enabled'')"
    and desc_r: "map_of description_reference (KStr ''description'') = Some (JStr ''A'')"
    and desc_l: "map_of description_live (KStr ''description'') = Some (JStr ''B'')"
    by (simp_all add: examples)
  note check = validate_descriptor_key_check
      [of description_reference description_live "\<lambda>k. 0" "[]", unfolded Let_def]
  from check name_r name_l
  have name: "validate_key (\<lambda>k. 0) description_reference description_live [] (KStr ''name'')
       = validate_descriptor (\<lambda>k. 0) (JStr ''enabled'') (JStr ''enabled'') [Txt ''name'', Txt ''->'']"
    by simp
  from check desc_r desc_l
  have desc: "validate_key (\<lambda>k. 0) description_reference description_live []
       (KStr ''description'') = Inr ()"
    by simp
  have keys: "set (map fst description_reference) = {KStr ''name'', KStr ''description''}"
    by (simp add: examples)
  have leaf: "validate_descriptor (\<lambda>k. 0) (JStr ''enabled'') (JStr ''enabled'')
       [Txt ''name'', Txt ''->''] = Inr ()"
    by (simp add: validate_descriptor.simps)
  from check same
  have "(validate_descriptor (\<lambda>k. 0) (JDict description_reference) (JDict description_live) []
          = Inr ())
      = (\<forall>key\<in>set (map fst description_reference).
           validate_key (\<lambda>k. 0) description_reference description_live [] key = Inr ())"
    by blast
  with name desc leaf
  have "validate_descriptor (\<lambda>k. 0) (JDict description_reference) (JDict description_live) []
       = Inr ()"
    unfolding keys by simp
  with differ missing same name_r name_l name show ?thesis by simp
qed

text \<open>
  C3 as stated fails: with equal key sets not every value of the reference is compared. The two descriptors
  differ under \<^verbatim>\<open>description\<close>, the comparison of the two values would raise, and the
  comparison of the descriptors succeeds.
\<close>

theorem validate_descriptor_description_counterexample:
  "set (map fst description_reference) = set (map fst description_live)
   \<and> map_of description_reference (KStr ''description'') = Some (JStr ''A'')
   \<and> map_of description_live (KStr ''description'') = Some (JStr ''B'')
   \<and> validate_descriptor (\<lambda>k. 0) (JStr ''A'') (JStr ''B'') [Txt ''description'', Txt ''->'']
       = Inl (NMOSTestException [Txt ''description'', Txt ''->'', Txt ''Expected value: '',
            StrOf (JStr ''A''), Txt '', actual value: '', StrOf (JStr ''B'')])
   \<and> validate_descriptor (\<lambda>k. 0) (JDict description_reference) (JDict description_live) []
       = Inr ()"
  by (simp add: description_reference_def description_live_def validate_descriptor.simps
      validate_key.simps iteration_order_def Let_def)

section \<open>Lists in descriptors\<close>

text \<open>Equality of values is reflexive; the comparison of two mappings reads the live
  one through its lookup only.\<close>

lemma py_eq_refl: "py_eq v v"
proof (induction v)
  case (JList xs)
  then show ?case by (simp add: list_all2_same)
next
  case (JDict kvs)
  have "\<And>k. k \<in> fst ` set kvs \<Longrightarrow> \<exists>v. map_of kvs k = Some v \<and> py_eq v v"
  proof -
    fix k assume "k \<in> fst ` set kvs"
    then obtain v where v: "map_of kvs k = Some v"
      by (metis domD dom_map_of_conv_image_fst)
    then have "(k, v) \<in> set kvs" by (rule map_of_SomeD)
    with JDict.IH [of "(k, v)" v] v show "\<exists>v. map_of kvs k = Some v \<and> py_eq v v" by simp
  qed
  then show ?case unfolding py_eq.simps list_all_iff by force
qed simp_all

lemma validate_key_map_of:
  assumes "map_of d = map_of d'"
  shows "validate_key rank r d ctx key = validate_key rank r d' ctx key"
  unfolding validate_key.simps assms ..

lemma validate_descriptor_map_of:
  assumes "map_of d = map_of d'"
  shows "validate_descriptor rank (JDict r) (JDict d) ctx
       = validate_descriptor rank (JDict r) (JDict d') ctx"
proof -
  from assms have "dom (map_of d) = dom (map_of d')" by simp
  then have keys: "set (map fst d) = set (map fst d')"
    by (simp add: dom_map_of_conv_image_fst)
  from assms have each: "validate_key rank r d ctx = validate_key rank r d' ctx"
    by (intro ext) (rule validate_key_map_of)
  show ?thesis unfolding validate_descriptor.simps keys each ..
qed

lemma name_dict_map_of:
  "name_dict items d = Inr d' \<Longrightarrow> distinct (map item_key items) \<Longrightarrow>
     (\<forall>item\<in>set items. \<forall>k. item_key item = Inr k \<longrightarrow> map_of d' k = Some item)
   \<and> (\<forall>k. (\<forall>item\<in>set items. item_key item \<noteq> Inr k) \<longrightarrow> map_of d' k = map_of d k)"
proof (induction items arbitrary: d)
  case Nil
  then show ?case by simp
next
  case (Cons item rest)
  from Cons.prems(1) obtain k0 where k0: "item_key item = Inr k0"
    and rest: "name_dict rest (AList.update k0 item d) = Inr d'"
    by (auto split: sum.splits)
  from Cons.prems(2) have dist: "distinct (map item_key rest)"
    and "item_key item \<notin> set (map item_key rest)" by simp_all
  with k0 have fresh: "\<forall>x\<in>set rest. item_key x \<noteq> Inr k0" by force
  from Cons.IH [OF rest dist]
  have a: "\<forall>x\<in>set rest. \<forall>k. item_key x = Inr k \<longrightarrow> map_of d' k = Some x"
    and b: "\<forall>k. (\<forall>x\<in>set rest. item_key x \<noteq> Inr k) \<longrightarrow> map_of d' k = map_of (AList.update k0 item d) k"
    by blast+
  from b fresh have "map_of d' k0 = Some item" by (simp add: update_conv')
  moreover have "map_of d' k = map_of d k"
    if "\<forall>x\<in>set (item # rest). item_key x \<noteq> Inr k" for k
  proof -
    from that k0 have "k \<noteq> k0" by auto
    with b that show ?thesis by (simp add: update_conv')
  qed
  ultimately show ?case using a k0 by auto
qed

lemma name_dict_total:
  "\<forall>item\<in>set items. \<exists>k. item_key item = Inr k \<Longrightarrow> \<exists>d'. name_dict items d = Inr d'"
  by (induction items arbitrary: d) (auto split: sum.splits)

lemma name_dict_permuted:
  assumes dist: "distinct (map item_key ls)" and perm: "mset ls' = mset ls"
    and a: "name_dict ls [] = Inr ld" and b: "name_dict ls' [] = Inr ld'"
  shows "map_of ld' = map_of ld"
proof
  fix k
  from perm have sets: "set ls' = set ls" by (rule mset_eq_setD)
  from perm have "mset (map item_key ls') = mset (map item_key ls)" by simp
  with dist have dist': "distinct (map item_key ls')"
    by (metis mset_eq_imp_distinct_iff)
  note A = name_dict_map_of [OF a dist] and B = name_dict_map_of [OF b dist']
  show "map_of ld' k = map_of ld k"
  proof (cases "\<exists>item\<in>set ls. item_key item = Inr k")
    case True
    then obtain item where "item \<in> set ls" "item_key item = Inr k" by blast
    with A B sets show ?thesis by simp
  next
    case False
    with A B sets show ?thesis by simp
  qed
qed

lemma validate_descriptor_permuted:
  assumes obj: "refs \<noteq> [] \<and> is_dict (hd refs)"
    and named: "\<forall>item\<in>set ls. \<exists>k. item_key item = Inr k"
    and dist: "distinct (map item_key ls)" and perm: "mset ls' = mset ls"
  shows "validate_descriptor rank (JList refs) (JList ls') ctx
       = validate_descriptor rank (JList refs) (JList ls) ctx"
proof (cases "name_dict refs []")
  case (Inl e)
  with obj show ?thesis by (simp add: validate_descriptor.simps)
next
  case (Inr rd)
  from name_dict_total [OF named] obtain ld where ld: "name_dict ls [] = Inr ld" by blast
  from perm have "set ls' = set ls" by (rule mset_eq_setD)
  with named have "\<forall>item\<in>set ls'. \<exists>k. item_key item = Inr k" by simp
  from name_dict_total [OF this] obtain ld' where ld': "name_dict ls' [] = Inr ld'" by blast
  from name_dict_permuted [OF dist perm ld ld'] have "map_of ld' = map_of ld" .
  from validate_descriptor_map_of [OF this] obj Inr ld ld' show ?thesis
    by (simp add: validate_descriptor.simps)
qed

lemma name_dict_str_keys:
  "name_dict items d = Inr d' \<Longrightarrow> list_all str_named items \<Longrightarrow>
     list_all (\<lambda>kv. is_str_key (fst kv)) d \<Longrightarrow> list_all (\<lambda>kv. is_str_key (fst kv)) d'"
proof (induction items arbitrary: d)
  case Nil
  then show ?case by simp
next
  case (Cons item rest)
  from Cons.prems(1) obtain k0 where k0: "item_key item = Inr k0"
    and rest: "name_dict rest (AList.update k0 item d) = Inr d'"
    by (auto split: sum.splits)
  from Cons.prems(2) k0 have "is_str_key k0" by (simp add: str_named_def)
  with Cons.prems(3) have "list_all (\<lambda>kv. is_str_key (fst kv)) (AList.update k0 item d)"
    by (induction d) auto
  from Cons.IH [OF rest _ this] Cons.prems(2) show ?case by simp
qed

lemma str_named_named: "str_named item \<Longrightarrow> \<exists>k. item_key item = Inr k"
  by (auto simp: str_named_def split: sum.splits)

lemma validate_descriptor_refl:
  "well_named reference \<Longrightarrow> validate_descriptor rank reference reference ctx = Inr ()"
proof (induction "3 * depth reference + (if is_list reference then 2 else 1 :: nat)"
    arbitrary: reference ctx rule: less_induct)
  case less
  show ?case
  proof (cases reference)
    case (JDict kvs)
    have "validate_key rank kvs kvs ctx key = Inr ()" if key: "key \<in> set (map fst kvs)" for key
    proof -
      from key obtain rv where rv: "map_of kvs key = Some rv"
        by (metis domD dom_map_of_conv_image_fst set_map)
      then have mem: "(key, rv) \<in> set kvs" by (rule map_of_SomeD)
      with less.prems JDict have str: "is_str_key key" and wf: "well_named rv"
        by (auto simp: list_all_iff)
      from str obtain k where k: "key = KStr k" by (cases key) auto
      from depth_value [OF rv] JDict
      have "3 * depth rv + (if is_list rv then 2 else 1)
          < 3 * depth reference + (if is_list reference then 2 else 1)"
        by simp
      from less.hyps [OF this wf]
      have "validate_descriptor rank rv rv (ctx @ [Txt k, Txt ''->'']) = Inr ()" .
      with rv k show ?thesis by (simp add: validate_key.simps py_eq_refl)
    qed
    then show ?thesis
      unfolding JDict validate_descriptor.simps Let_def
      by (simp add: first_error_ok set_iteration_order)
  next
    case (JList refs)
    show ?thesis
    proof (cases "refs \<noteq> [] \<and> is_dict (hd refs)")
      case False
      then show ?thesis unfolding JList by (auto simp: validate_descriptor.simps py_eq_refl)
    next
      case True
      with less.prems JList have named: "list_all str_named refs"
        and wf: "list_all well_named refs" by auto
      from named have "\<forall>item\<in>set refs. \<exists>k. item_key item = Inr k"
        by (auto simp: list_all_iff dest: str_named_named)
      from name_dict_total [OF this] obtain rd where rd: "name_dict refs [] = Inr rd" by blast
      from name_dict_str_keys [OF rd named] have keys: "list_all (\<lambda>kv. is_str_key (fst kv)) rd"
        by simp
      from name_dict_values [OF rd] wf have "list_all (\<lambda>kv. well_named (snd kv)) rd"
        by (auto simp: list_all_iff)
      with keys have wfd: "well_named (JDict rd)" by (auto simp: list_all_iff)
      from name_dict_depth [OF rd] JList
      have "3 * depth (JDict rd) + (if is_list (JDict rd) then 2 else 1)
          < 3 * depth reference + (if is_list reference then 2 else 1)"
        by simp
      from less.hyps [OF this wfd]
      have "validate_descriptor rank (JDict rd) (JDict rd) ctx = Inr ()" .
      with True rd show ?thesis unfolding JList by (simp add: validate_descriptor.simps)
    qed
  qed (simp_all add: validate_descriptor.simps)
qed

text \<open>
  C8, as amended. A reference list that is not empty and starts with an object is compared
  through two maps: both lists are turned into maps keyed by the \<^verbatim>\<open>name\<close> of each
  element, and the maps are compared as mappings; with pairwise distinct names every
  named element is found under its name. The order of the live list is then immaterial:
  a permutation of a list of named elements with pairwise distinct names has the outcome
  of the list itself, and a permutation of the reference list compares equal, for a
  reference whose keys and names are strings and whose names are pairwise distinct
  (elements that share a name are one entry of the map, the last one). A reference list
  that is empty or starts with anything but an object is compared by equality: the live
  value has to be a list of the same length with equal elements position by position,
  and any difference raises.
\<close>

theorem validate_descriptor_lists:
  "(refs \<noteq> [] \<and> is_dict (hd refs) \<longrightarrow>
      (\<forall>rd ld. name_dict refs [] = Inr rd \<and> name_dict ls [] = Inr ld \<longrightarrow>
          validate_descriptor rank (JList refs) (JList ls) ctx
            = validate_descriptor rank (JDict rd) (JDict ld) ctx
        \<and> (distinct (map item_key ls) \<longrightarrow>
             (\<forall>item\<in>set ls. \<forall>k. item_key item = Inr k \<longrightarrow> map_of ld k = Some item)))
    \<and> ((\<forall>item\<in>set ls. \<exists>k. item_key item = Inr k) \<and> distinct (map item_key ls)
          \<and> mset ls' = mset ls \<longrightarrow>
          validate_descriptor rank (JList refs) (JList ls') ctx
            = validate_descriptor rank (JList refs) (JList ls) ctx)
    \<and> (well_named (JList refs) \<and> distinct (map item_key refs) \<and> mset ls' = mset refs \<longrightarrow>
          validate_descriptor rank (JList refs) (JList ls') ctx = Inr ()))
   \<and> (refs = [] \<or> \<not> is_dict (hd refs) \<longrightarrow>
        validate_descriptor rank (JList refs) live ctx =
          (if py_eq (JList refs) live then Inr ()
           else Inl (NMOSTestException (ctx @ [Txt ''Unexpected sequence. Expected: '',
                  StrOf (JList refs), Txt '' actual: '', StrOf live])))
      \<and> py_eq (JList refs) live
          = (\<exists>xs. live = JList xs \<and> length xs = length refs
               \<and> (\<forall>i<length refs. py_eq (refs ! i) (xs ! i))))"
proof -
  have maps: "validate_descriptor rank (JList refs) (JList ls) ctx
            = validate_descriptor rank (JDict rd) (JDict ld) ctx"
    if "refs \<noteq> [] \<and> is_dict (hd refs)" "name_dict refs [] = Inr rd" "name_dict ls [] = Inr ld"
    for rd ld
    using that by (simp add: validate_descriptor.simps)
  have keyed: "\<forall>item\<in>set ls. \<forall>k. item_key item = Inr k \<longrightarrow> map_of ld k = Some item"
    if "name_dict ls [] = Inr ld" "distinct (map item_key ls)" for ld
    using name_dict_map_of [OF that] by blast
  have permuted: "validate_descriptor rank (JList refs) (JList ls') ctx
            = validate_descriptor rank (JList refs) (JList ls) ctx"
    if "refs \<noteq> [] \<and> is_dict (hd refs)" "\<forall>item\<in>set ls. \<exists>k. item_key item = Inr k"
      "distinct (map item_key ls)" "mset ls' = mset ls"
    using that by (rule validate_descriptor_permuted)
  have equal: "validate_descriptor rank (JList refs) (JList ls') ctx = Inr ()"
    if obj: "refs \<noteq> [] \<and> is_dict (hd refs)" and wf: "well_named (JList refs)"
      and dist: "distinct (map item_key refs)" and perm: "mset ls' = mset refs"
  proof -
    from obj wf have "list_all str_named refs" by simp
    then have "\<forall>item\<in>set refs. \<exists>k. item_key item = Inr k"
      by (auto simp: list_all_iff dest: str_named_named)
    from validate_descriptor_permuted [OF obj this dist perm]
      validate_descriptor_refl [OF wf]
    show ?thesis by simp
  qed
  have plain: "validate_descriptor rank (JList refs) live ctx =
          (if py_eq (JList refs) live then Inr ()
           else Inl (NMOSTestException (ctx @ [Txt ''Unexpected sequence. Expected: '',
                  StrOf (JList refs), Txt '' actual: '', StrOf live])))"
    if "refs = [] \<or> \<not> is_dict (hd refs)"
    using that by (auto simp: validate_descriptor.simps)
  have ordered: "py_eq (JList refs) live
          = (\<exists>xs. live = JList xs \<and> length xs = length refs
               \<and> (\<forall>i<length refs. py_eq (refs ! i) (xs ! i)))"
    by (cases live) (auto simp: list_all2_conv_all_nth)
  from maps keyed permuted equal plain ordered show ?thesis by blast
qed

text \<open>The theorem at two field descriptors in the other order, and at a list of numbers
  in the other order.\<close>

theorem validate_descriptor_lists_witness:
  "object_items \<noteq> [] \<and> is_dict (hd object_items)
   \<and> well_named (JList object_items) \<and> distinct (map item_key object_items)
   \<and> mset permuted_items = mset object_items
   \<and> validate_descriptor (\<lambda>k. 0) (JList object_items) (JList permuted_items) [] = Inr ()
   \<and> \<not> is_dict (hd plain_items)
   \<and> validate_descriptor (\<lambda>k. 0) (JList plain_items) (JList (rev plain_items)) []
       = Inl (NMOSTestException [Txt ''Unexpected sequence. Expected: '',
            StrOf (JList plain_items), Txt '' actual: '', StrOf (JList (rev plain_items))])"
proof -
  have obj: "object_items \<noteq> [] \<and> is_dict (hd object_items)"
    by (simp add: object_items_def)
  have wf: "well_named (JList object_items)"
    by (simp add: object_items_def str_named_def item_key_def dict_item_def)
  have dist: "distinct (map item_key object_items)"
    by (simp add: object_items_def item_key_def dict_item_def)
  have perm: "mset permuted_items = mset object_items"
    by (simp add: object_items_def permuted_items_def)
  have plain: "\<not> is_dict (hd plain_items)" by (simp add: plain_items_def)
  have differ: "\<not> py_eq (JList plain_items) (JList (rev plain_items))"
    by (simp add: plain_items_def)
  from validate_descriptor_lists
    [of object_items object_items "\<lambda>k. 0" "[]" permuted_items "JNull"] obj wf dist perm
  have a: "validate_descriptor (\<lambda>k. 0) (JList object_items) (JList permuted_items) [] = Inr ()"
    by blast
  from validate_descriptor_lists
    [of plain_items "[]" "\<lambda>k. 0" "[]" "[]" "JList (rev plain_items)"] plain differ
  have b: "validate_descriptor (\<lambda>k. 0) (JList plain_items) (JList (rev plain_items)) []
       = Inl (NMOSTestException [Txt ''Unexpected sequence. Expected: '',
            StrOf (JList plain_items), Txt '' actual: '', StrOf (JList (rev plain_items))])"
    by simp
  from obj wf dist perm a plain b show ?thesis by simp
qed

text \<open>
  C8 as stated fails for elements that share a name: the map keeps the last of them. The
  list of the two field descriptors named \<^verbatim>\<open>oid\<close> compares equal to itself and
  differs from its own reversal; and against the reference that holds the second
  descriptor alone, the live list passes in one order and fails in the other.
\<close>

theorem validate_descriptor_shared_name_counterexample:
  "shared_name_items \<noteq> [] \<and> is_dict (hd shared_name_items)
   \<and> list_all is_dict shared_name_items
   \<and> mset (rev shared_name_items) = mset shared_name_items
   \<and> validate_descriptor (\<lambda>k. 0) (JList shared_name_items) (JList shared_name_items) []
       = Inr ()
   \<and> validate_descriptor (\<lambda>k. 0) (JList shared_name_items) (JList (rev shared_name_items)) []
       = Inl (NMOSTestException [Txt ''oid'', Txt ''->'', Txt ''typeName'', Txt ''->'',
            Txt ''Expected value: '', StrOf (JStr ''NcString''), Txt '', actual value: '',
            StrOf (JStr ''NcOid'')])
   \<and> validate_descriptor (\<lambda>k. 0) (JList single_item) (JList shared_name_items) [] = Inr ()
   \<and> validate_descriptor (\<lambda>k. 0) (JList single_item) (JList (rev shared_name_items)) []
       = Inl (NMOSTestException [Txt ''oid'', Txt ''->'', Txt ''typeName'', Txt ''->'',
            Txt ''Expected value: '', StrOf (JStr ''NcString''), Txt '', actual value: '',
            StrOf (JStr ''NcOid'')])"
  by (simp add: shared_name_items_def single_item_def validate_descriptor.simps
      validate_key.simps iteration_order_def item_key_def dict_item_def Let_def)

end
